theory Spec2Isabelle
  imports Complex_Main "HOL-Library.Log_Nat"
begin

section \<open>JavaScript values\<close>

text \<open>
  The client is TypeScript; at run time its values are JavaScript values. A \<open>number\<close> is an
  IEEE 754 binary64 value: a finite one is represented by the rational it denotes, the
  three special values are constructors. The sign of zero is not represented (neither
  JSON serialisation nor string conversion shows it).
\<close>

datatype number = Num rat | PosInfinity | NegInfinity | NaN

text \<open>
  A value as JSON has it, and \<open>undefined\<close>. An object is the list of its properties, each
  name once.
\<close>

datatype jsvalue =
    JUndefined
  | JNull
  | JBool bool
  | JNum number
  | JString string
  | JArray "jsvalue list"
  | JObject "(string \<times> jsvalue) list"

text \<open>The errors a call can raise (a rejected promise of an \<open>async\<close> function).\<close>

datatype error =
    Error string           \<comment> \<open>\<open>new Error(message)\<close>\<close>
  | TypeError string       \<comment> \<open>a property read on \<open>null\<close> or \<open>undefined\<close>, a failed conversion\<close>
  | ReferenceError string  \<comment> \<open>a read of an identifier that is not declared\<close>
  | SyntaxError            \<comment> \<open>\<open>response.json()\<close> on a body that is not JSON\<close>
  | NetworkError           \<comment> \<open>the transport itself failed\<close>

subsection \<open>Binary64 arithmetic\<close>

definition pow2 :: "int \<Rightarrow> rat" where
  "pow2 e = (if 0 \<le> e then 2 ^ nat e else 1 / 2 ^ nat (- e))"

definition pow10 :: "int \<Rightarrow> rat" where
  "pow10 e = (if 0 \<le> e then 10 ^ nat e else 1 / 10 ^ nat (- e))"

text \<open>\<open>floor_log2 a\<close> is the \<open>e\<close> with \<open>2^e \<le> a < 2^(e+1)\<close>, for \<open>a > 0\<close>.\<close>

definition floor_log2 :: "rat \<Rightarrow> int" where
  "floor_log2 a =
     (if 1 \<le> a then bitlen \<lfloor>a\<rfloor> - 1 else - bitlen (\<lceil>1 / a\<rceil> - 1))"

definition round_half_even :: "rat \<Rightarrow> int" where
  "round_half_even r =
     (let f = \<lfloor>r\<rfloor>; d = r - of_int f
      in if d < 1 / 2 then f
         else if 1 / 2 < d then f + 1
         else if even f then f else f + 1)"

text \<open>
  Rounding of an exact result to binary64, round-to-nearest, ties to even: 53 bits of
  significand, gradual underflow below \<open>2^-1022\<close>, overflow to an infinity from \<open>2^1024\<close>.
\<close>

definition round_double :: "rat \<Rightarrow> number" where
  "round_double q =
     (if q = 0 then Num 0
      else
        let a = \<bar>q\<bar>;
            e = max (floor_log2 a) (- 1022);
            ulp = pow2 (e - 52);
            r = of_int (round_half_even (a / ulp)) * ulp
        in if pow2 1024 \<le> r then (if 0 < q then PosInfinity else NegInfinity)
           else Num (if 0 < q then r else - r))"

text \<open>The operators \<open>*\<close> and \<open>/\<close> on numbers.\<close>

fun js_mul :: "number \<Rightarrow> number \<Rightarrow> number" where
  "js_mul (Num a) (Num b) = round_double (a * b)"
| "js_mul NaN _ = NaN"
| "js_mul _ NaN = NaN"
| "js_mul (Num a) PosInfinity = (if a = 0 then NaN else if 0 < a then PosInfinity else NegInfinity)"
| "js_mul (Num a) NegInfinity = (if a = 0 then NaN else if 0 < a then NegInfinity else PosInfinity)"
| "js_mul PosInfinity (Num b) = (if b = 0 then NaN else if 0 < b then PosInfinity else NegInfinity)"
| "js_mul NegInfinity (Num b) = (if b = 0 then NaN else if 0 < b then NegInfinity else PosInfinity)"
| "js_mul PosInfinity PosInfinity = PosInfinity"
| "js_mul PosInfinity NegInfinity = NegInfinity"
| "js_mul NegInfinity PosInfinity = NegInfinity"
| "js_mul NegInfinity NegInfinity = PosInfinity"

fun js_div :: "number \<Rightarrow> number \<Rightarrow> number" where
  "js_div (Num a) (Num b) =
     (if b = 0 then (if a = 0 then NaN else if 0 < a then PosInfinity else NegInfinity)
      else round_double (a / b))"
| "js_div NaN _ = NaN"
| "js_div _ NaN = NaN"
| "js_div (Num a) PosInfinity = Num 0"
| "js_div (Num a) NegInfinity = Num 0"
| "js_div PosInfinity (Num b) = (if 0 \<le> b then PosInfinity else NegInfinity)"
| "js_div NegInfinity (Num b) = (if 0 \<le> b then NegInfinity else PosInfinity)"
| "js_div PosInfinity _ = NaN"
| "js_div NegInfinity _ = NaN"

text \<open>\<open>Math.round\<close>: the nearest integer, a tie towards \<open>+\<infinity>\<close>.\<close>

fun math_round :: "number \<Rightarrow> number" where
  "math_round (Num q) = Num (of_int \<lfloor>q + 1 / 2\<rfloor>)"
| "math_round n = n"

fun is_integer :: "number \<Rightarrow> bool" where
  "is_integer (Num q) = (of_int \<lfloor>q\<rfloor> = q)"
| "is_integer _ = False"

fun non_negative :: "number \<Rightarrow> bool" where
  "non_negative (Num q) = (0 \<le> q)"
| "non_negative PosInfinity = True"
| "non_negative _ = False"

subsection \<open>Conversion to string\<close>

definition digit_char :: "nat \<Rightarrow> char" where
  "digit_char d = ''0123456789'' ! d"

fun show_nat :: "nat \<Rightarrow> string" where
  "show_nat n = (if n < 10 then [digit_char n] else show_nat (n div 10) @ [digit_char (n mod 10)])"

declare show_nat.simps [simp del]

text \<open>\<open>decimal_exponent x\<close> is the \<open>n\<close> with \<open>10^(n-1) \<le> x < 10^n\<close>, for \<open>x > 0\<close>.\<close>

definition decimal_exponent :: "rat \<Rightarrow> int" where
  "decimal_exponent x =
     (if 1 \<le> x then int (length (show_nat (nat \<lfloor>x\<rfloor>)))
      else 1 - int (length (show_nat (nat (\<lceil>1 / x\<rceil> - 1)))))"

text \<open>
  \<open>Number::toString\<close> (ECMAScript, radix 10) writes a finite \<open>x > 0\<close> with the integers
  \<open>n\<close>, \<open>k\<close>, \<open>s\<close> such that \<open>s\<close> has \<open>k\<close> digits, \<open>s * 10^(n-k)\<close> rounds to \<open>x\<close>, and
  \<open>k\<close> is as small as possible; of several \<open>s\<close> the one closest to \<open>x\<close>. \<open>candidate x n k\<close>
  is that \<open>s\<close> for a given \<open>k\<close> (with its \<open>n\<close>), if there is one.
\<close>

definition candidate :: "rat \<Rightarrow> int \<Rightarrow> nat \<Rightarrow> (nat \<times> int) option" where
  "candidate x n k =
     (let scale = pow10 (n - int k);
          lo = nat \<lfloor>x / scale\<rfloor>;
          hi = lo + 1;
          ok_lo = (round_double (of_nat lo * scale) = Num x);
          ok_hi = (round_double (of_nat hi * scale) = Num x);
          d_lo = x - of_nat lo * scale;
          d_hi = of_nat hi * scale - x;
          pick_hi = (if ok_lo \<and> ok_hi then d_hi < d_lo \<or> (d_hi = d_lo \<and> odd lo) else ok_hi)
      in if ok_lo \<or> ok_hi
         then (if pick_hi then (if hi = 10 ^ k then Some (1, n + 1) else Some (hi, n))
               else Some (lo, n))
         else None)"

fun shortest_digits :: "rat \<Rightarrow> int \<Rightarrow> nat list \<Rightarrow> nat \<times> int" where
  "shortest_digits x n [] = (nat \<lfloor>x / pow10 (n - 17)\<rfloor>, n)"
| "shortest_digits x n (k # ks) =
     (case candidate x n k of Some r \<Rightarrow> r | None \<Rightarrow> shortest_digits x n ks)"

definition format_digits :: "string \<Rightarrow> int \<Rightarrow> string" where
  "format_digits ds n =
     (let k = int (length ds) in
      if k \<le> n \<and> n \<le> 21 then ds @ replicate (nat (n - k)) CHR ''0''
      else if 0 < n \<and> n \<le> 21 then take (nat n) ds @ ''.'' @ drop (nat n) ds
      else if - 6 < n \<and> n \<le> 0 then ''0.'' @ replicate (nat (- n)) CHR ''0'' @ ds
      else
        let e = n - 1;
            es = (if e < 0 then ''-'' else ''+'') @ show_nat (nat \<bar>e\<bar>)
        in if k = 1 then ds @ ''e'' @ es
           else take 1 ds @ ''.'' @ drop 1 ds @ ''e'' @ es)"

definition positive_to_string :: "rat \<Rightarrow> string" where
  "positive_to_string x =
     (case shortest_digits x (decimal_exponent x) [1 ..< 18] of
        (s, n) \<Rightarrow> format_digits (show_nat s) n)"

fun number_to_string :: "number \<Rightarrow> string" where
  "number_to_string NaN = ''NaN''"
| "number_to_string PosInfinity = ''Infinity''"
| "number_to_string NegInfinity = ''-Infinity''"
| "number_to_string (Num q) =
     (if q = 0 then ''0''
      else if q < 0 then ''-'' @ positive_to_string (- q)
      else positive_to_string q)"

text \<open>
  \<open>ToString\<close> on any value, as \<open>new Error(v)\<close> applies it to its argument. The values
  are those \<open>JSON.parse\<close> produces, so an object's own properties are data properties and
  none of them is callable. \<open>ToString\<close> on an object is \<open>OrdinaryToPrimitive\<close> with the
  hint string: it calls the object's \<open>toString\<close> and then its \<open>valueOf\<close>, each only if
  callable, and throws a \<open>TypeError\<close> when neither returns a primitive.

  \<^item> An object without an own property \<open>toString\<close> inherits \<open>Object.prototype.toString\<close>,
    which returns \<open>[object Object]\<close>.
  \<^item> An object with an own property \<open>toString\<close> has a value there that is not callable;
    \<open>valueOf\<close> is either an own property (not callable) or \<open>Object.prototype.valueOf\<close>,
    which returns the object itself: the conversion throws.
  \<^item> An array inherits \<open>Array.prototype.toString\<close>, which is \<open>join\<close>: the elements are
    converted from left to right, \<open>null\<close> and \<open>undefined\<close> as the empty string, and joined
    with commas. The first element whose conversion throws ends the conversion.
\<close>

fun intercalate :: "string \<Rightarrow> string list \<Rightarrow> string" where
  "intercalate sep [] = []"
| "intercalate sep [x] = x"
| "intercalate sep (x # y # ys) = x @ sep @ intercalate sep (y # ys)"

fun collect :: "(error + 'a) list \<Rightarrow> error + 'a list" where
  "collect [] = Inr []"
| "collect (x # xs) =
     (case x of
        Inl e \<Rightarrow> Inl e
      | Inr v \<Rightarrow> (case collect xs of Inl e \<Rightarrow> Inl e | Inr vs \<Rightarrow> Inr (v # vs)))"

fun js_to_string :: "jsvalue \<Rightarrow> error + string" where
  "js_to_string JUndefined = Inr ''undefined''"
| "js_to_string JNull = Inr ''null''"
| "js_to_string (JBool b) = Inr (if b then ''true'' else ''false'')"
| "js_to_string (JNum x) = Inr (number_to_string x)"
| "js_to_string (JString s) = Inr s"
| "js_to_string (JArray vs) =
     (case collect (map (\<lambda>v. if v = JUndefined \<or> v = JNull then Inr [] else js_to_string v) vs) of
        Inl e \<Rightarrow> Inl e
      | Inr ss \<Rightarrow> Inr (intercalate '','' ss))"
| "js_to_string (JObject kvs) =
     (if ''toString'' \<in> set (map fst kvs)
      then Inl (TypeError ''Cannot convert object to primitive value'')
      else Inr ''[object Object]'')"

subsection \<open>Truthiness and the operator \<open>||\<close>\<close>

fun js_truthy :: "jsvalue \<Rightarrow> bool" where
  "js_truthy JUndefined = False"
| "js_truthy JNull = False"
| "js_truthy (JBool b) = b"
| "js_truthy (JNum x) = (x \<noteq> NaN \<and> x \<noteq> Num 0)"
| "js_truthy (JString s) = (s \<noteq> [])"
| "js_truthy (JArray vs) = True"
| "js_truthy (JObject kvs) = True"

text \<open>
  A value of type \<open>string | undefined\<close> (an optional option) or \<open>string | null\<close> (what
  \<open>URLSearchParams.get\<close> returns) is a \<open>string option\<close>; \<open>None\<close> and the empty string are
  the falsy ones. \<open>a || b\<close> is \<open>a\<close> when \<open>a\<close> is truthy and \<open>b\<close> otherwise.
\<close>

fun truthy :: "string option \<Rightarrow> bool" where
  "truthy None = False"
| "truthy (Some s) = (s \<noteq> [])"

definition js_or :: "string option \<Rightarrow> string option \<Rightarrow> string option" where
  "js_or a b = (if truthy a then a else b)"

definition js_or_string :: "string option \<Rightarrow> string \<Rightarrow> string" where
  "js_or_string a b = (case a of None \<Rightarrow> b | Some s \<Rightarrow> if s \<noteq> [] then s else b)"

text \<open>\<open>v.message\<close>: a property read. It throws on \<open>null\<close> and \<open>undefined\<close>.\<close>

fun get_message :: "jsvalue \<Rightarrow> error + jsvalue" where
  "get_message JUndefined = Inl (TypeError ''Cannot read properties of undefined (reading 'message')'')"
| "get_message JNull = Inl (TypeError ''Cannot read properties of null (reading 'message')'')"
| "get_message (JObject kvs) =
     Inr (case map_of kvs ''message'' of None \<Rightarrow> JUndefined | Some v \<Rightarrow> v)"
| "get_message v = Inr JUndefined"

section \<open>The transport\<close>

text \<open>
  \<open>fetcher\<close> (\<open>./fetcher\<close>) performs the HTTP request. Every call of it is one outbound
  request; what the client passes to it is the request. The fetcher is a parameter of
  the model: it answers a request with a response, or fails.
\<close>

datatype http_method = POST | GET

record fetcher_options =
  http_method :: http_method
  endpoint :: string
  variables :: "jsvalue option"

text \<open>
  A \<open>Response\<close>: \<open>json\<close> is the outcome of \<open>response.json()\<close>, the parsed body or the
  rejection when the body is not JSON.
\<close>

record response =
  status :: nat
  statusText :: string
  json :: "error + jsvalue"

type_synonym fetcher = "fetcher_options \<Rightarrow> error + response"

text \<open>
  The outcome of a call: the value the promise resolves to, or the error it rejects
  with; and the requests issued, in order.
\<close>

type_synonym outcome = "(error + jsvalue) \<times> fetcher_options list"

definition throw :: "error \<Rightarrow> outcome" where
  "throw e = (Inl e, [])"

text \<open>A transport for tests, which answers every request with one fixed response.\<close>

definition mock_fetcher :: "response \<Rightarrow> fetcher" where
  "mock_fetcher r = (\<lambda>request. Inr r)"

section \<open>\<open>StakeEngineClient\<close>\<close>

record post_options =
  post_url :: string
  post_rgsUrl :: string
  post_variables :: "jsvalue option"

record get_options =
  get_url :: string
  get_rgsUrl :: string

definition post :: "fetcher \<Rightarrow> post_options \<Rightarrow> outcome" where
  "post fetcher options =
     (let request = \<lparr>http_method = POST,
                      endpoint = ''https://'' @ post_rgsUrl options @ post_url options,
                      variables = post_variables options\<rparr>
      in case fetcher request of
           Inl e \<Rightarrow> (Inl e, [request])
         | Inr response \<Rightarrow>
             if status response \<noteq> 200 then
               (let errorData = (case json response of Inl e \<Rightarrow> JObject [] | Inr v \<Rightarrow> v)
                in case get_message errorData of
                     Inl e \<Rightarrow> (Inl e, [request])
                   | Inr message \<Rightarrow>
                       if js_truthy message then
                         (case js_to_string message of
                            Inl e \<Rightarrow> (Inl e, [request])
                          | Inr msg \<Rightarrow> (Inl (Error msg), [request]))
                       else
                         (Inl (Error (''RGS API error: '' @ show_nat (status response) @ '' ''
                                      @ statusText response)),
                          [request]))
             else (json response, [request]))"

definition get :: "fetcher \<Rightarrow> get_options \<Rightarrow> outcome" where
  "get fetcher options =
     (let request = \<lparr>http_method = GET,
                      endpoint = ''https://'' @ get_rgsUrl options @ get_url options,
                      variables = None\<rparr>
      in case fetcher request of
           Inl e \<Rightarrow> (Inl e, [request])
         | Inr response \<Rightarrow>
             if status response \<noteq> 200 then
               (let errorData = (case json response of Inl e \<Rightarrow> JObject [] | Inr v \<Rightarrow> v)
                in case get_message errorData of
                     Inl e \<Rightarrow> (Inl e, [request])
                   | Inr message \<Rightarrow>
                       if js_truthy message then
                         (case js_to_string message of
                            Inl e \<Rightarrow> (Inl e, [request])
                          | Inr msg \<Rightarrow> (Inl (Error msg), [request]))
                       else
                         (Inl (Error (''RGS API error: '' @ show_nat (status response) @ '' ''
                                      @ statusText response)),
                          [request]))
             else (json response, [request]))"

section \<open>The ambient URL context\<close>

text \<open>
  \<open>new URLSearchParams(window.location.search)\<close>: the name-value pairs of the page's query
  string, in order. \<open>get\<close> returns the first value of a name, or \<open>null\<close>. The operations
  take the pairs as their input, so they describe a host that has a \<open>window\<close>; the
  section on the host covers one that has none.
\<close>

type_synonym url_search_params = "(string \<times> string) list"

definition usp_get :: "url_search_params \<Rightarrow> string \<Rightarrow> string option" where
  "usp_get params name = map_of params name"

record url_params =
  url_sessionID :: "string option"
  url_rgsUrl :: "string option"
  url_language :: string
  url_currency :: string

definition getUrlParams :: "url_search_params \<Rightarrow> url_params" where
  "getUrlParams urlParams =
     \<lparr>url_sessionID = usp_get urlParams ''sessionID'',
      url_rgsUrl = usp_get urlParams ''rgs_url'',
      url_language = js_or_string (usp_get urlParams ''lang'') ''en'',
      url_currency = js_or_string (usp_get urlParams ''currency'') ''USD''\<rparr>"

section \<open>The operations\<close>

text \<open>
  Modelled from the spec: \<open>./constants\<close> is not among the sources. The specification and
  the README give \<open>API_AMOUNT_MULTIPLIER\<close> as 1,000,000 (\<open>1.00 * API_AMOUNT_MULTIPLIER\<close> is
  \<open>1000000\<close>).
\<close>

definition API_AMOUNT_MULTIPLIER :: number where
  "API_AMOUNT_MULTIPLIER = Num 1000000"

definition sessionID_required :: error where
  "sessionID_required = Error ''sessionID is required (provide in options or URL param)''"

definition rgsUrl_required :: error where
  "rgsUrl_required = Error ''rgsUrl is required (provide in options or rgs_url URL param)''"

text \<open>
  Every operation takes the transport, the page's query parameters and its options. An
  options object that may be left out (\<open>options?\<close>) is an \<open>option\<close>; \<open>options?.f\<close> is then
  \<open>Option.bind options f\<close>. The check \<open>if (!sessionID) throw ...\<close> is the case distinction
  on \<open>if truthy sessionID then sessionID else None\<close>: the falsy values throw, and a truthy
  one is the string the rest of the function uses.
\<close>

record authenticate_options =
  auth_sessionID :: "string option"
  auth_rgsUrl :: "string option"
  auth_language :: "string option"

definition authenticate :: "fetcher \<Rightarrow> url_search_params \<Rightarrow> authenticate_options option \<Rightarrow> outcome" where
  "authenticate fetcher search options =
     (let urlParams = getUrlParams search;
          sessionID = js_or (Option.bind options auth_sessionID) (url_sessionID urlParams);
          rgsUrl = js_or (Option.bind options auth_rgsUrl) (url_rgsUrl urlParams);
          language = js_or_string (Option.bind options auth_language) (url_language urlParams)
      in case (if truthy sessionID then sessionID else None) of
           None \<Rightarrow> throw sessionID_required
         | Some sid \<Rightarrow>
             (case (if truthy rgsUrl then rgsUrl else None) of
                None \<Rightarrow> throw rgsUrl_required
              | Some host \<Rightarrow>
                  post fetcher
                    \<lparr>post_url = ''/wallet/authenticate'',
                     post_rgsUrl = host,
                     post_variables =
                       Some (JObject [(''sessionID'', JString sid),
                                      (''language'', JString language)])\<rparr>))"

record play_options =
  play_amount :: number
  play_mode :: string
  play_currency :: "string option"
  play_sessionID :: "string option"
  play_rgsUrl :: "string option"

definition play :: "fetcher \<Rightarrow> url_search_params \<Rightarrow> play_options \<Rightarrow> outcome" where
  "play fetcher search options =
     (let urlParams = getUrlParams search;
          sessionID = js_or (play_sessionID options) (url_sessionID urlParams);
          rgsUrl = js_or (play_rgsUrl options) (url_rgsUrl urlParams);
          currency = js_or_string (play_currency options) (url_currency urlParams)
      in case (if truthy sessionID then sessionID else None) of
           None \<Rightarrow> throw sessionID_required
         | Some sid \<Rightarrow>
             (case (if truthy rgsUrl then rgsUrl else None) of
                None \<Rightarrow> throw rgsUrl_required
              | Some host \<Rightarrow>
                  post fetcher
                    \<lparr>post_url = ''/wallet/play'',
                     post_rgsUrl = host,
                     post_variables =
                       Some (JObject [(''mode'', JString (play_mode options)),
                                      (''currency'', JString currency),
                                      (''sessionID'', JString sid),
                                      (''amount'',
                                       JNum (js_mul (play_amount options) API_AMOUNT_MULTIPLIER))])\<rparr>))"

record endRound_options =
  endRound_sessionID :: "string option"
  endRound_rgsUrl :: "string option"

definition endRound :: "fetcher \<Rightarrow> url_search_params \<Rightarrow> endRound_options option \<Rightarrow> outcome" where
  "endRound fetcher search options =
     (let urlParams = getUrlParams search;
          sessionID = js_or (Option.bind options endRound_sessionID) (url_sessionID urlParams);
          rgsUrl = js_or (Option.bind options endRound_rgsUrl) (url_rgsUrl urlParams)
      in case (if truthy sessionID then sessionID else None) of
           None \<Rightarrow> throw sessionID_required
         | Some sid \<Rightarrow>
             (case (if truthy rgsUrl then rgsUrl else None) of
                None \<Rightarrow> throw rgsUrl_required
              | Some host \<Rightarrow>
                  post fetcher
                    \<lparr>post_url = ''/wallet/end-round'',
                     post_rgsUrl = host,
                     post_variables = Some (JObject [(''sessionID'', JString sid)])\<rparr>))"

record endEvent_options =
  endEvent_eventIndex :: number
  endEvent_sessionID :: "string option"
  endEvent_rgsUrl :: "string option"

definition endEvent :: "fetcher \<Rightarrow> url_search_params \<Rightarrow> endEvent_options \<Rightarrow> outcome" where
  "endEvent fetcher search options =
     (let urlParams = getUrlParams search;
          sessionID = js_or (endEvent_sessionID options) (url_sessionID urlParams);
          rgsUrl = js_or (endEvent_rgsUrl options) (url_rgsUrl urlParams)
      in case (if truthy sessionID then sessionID else None) of
           None \<Rightarrow> throw sessionID_required
         | Some sid \<Rightarrow>
             (case (if truthy rgsUrl then rgsUrl else None) of
                None \<Rightarrow> throw rgsUrl_required
              | Some host \<Rightarrow>
                  post fetcher
                    \<lparr>post_url = ''/bet/event'',
                     post_rgsUrl = host,
                     post_variables =
                       Some (JObject [(''sessionID'', JString sid),
                                      (''event'',
                                       JString (number_to_string (endEvent_eventIndex options)))])\<rparr>))"

record forceResult_options =
  forceResult_mode :: string
  forceResult_search :: jsvalue
  forceResult_rgsUrl :: "string option"

definition forceResult :: "fetcher \<Rightarrow> url_search_params \<Rightarrow> forceResult_options \<Rightarrow> outcome" where
  "forceResult fetcher search options =
     (let urlParams = getUrlParams search;
          rgsUrl = js_or (forceResult_rgsUrl options) (url_rgsUrl urlParams)
      in case (if truthy rgsUrl then rgsUrl else None) of
           None \<Rightarrow> throw rgsUrl_required
         | Some host \<Rightarrow>
             post fetcher
               \<lparr>post_url = ''/game/search'',
                post_rgsUrl = host,
                post_variables =
                  Some (JObject [(''mode'', JString (forceResult_mode options)),
                                 (''search'', forceResult_search options)])\<rparr>)"

record getBalance_options =
  getBalance_sessionID :: "string option"
  getBalance_rgsUrl :: "string option"

definition getBalance :: "fetcher \<Rightarrow> url_search_params \<Rightarrow> getBalance_options option \<Rightarrow> outcome" where
  "getBalance fetcher search options =
     (let urlParams = getUrlParams search;
          sessionID = js_or (Option.bind options getBalance_sessionID) (url_sessionID urlParams);
          rgsUrl = js_or (Option.bind options getBalance_rgsUrl) (url_rgsUrl urlParams)
      in case (if truthy sessionID then sessionID else None) of
           None \<Rightarrow> throw sessionID_required
         | Some sid \<Rightarrow>
             (case (if truthy rgsUrl then rgsUrl else None) of
                None \<Rightarrow> throw rgsUrl_required
              | Some host \<Rightarrow>
                  post fetcher
                    \<lparr>post_url = ''/wallet/balance'',
                     post_rgsUrl = host,
                     post_variables = Some (JObject [(''sessionID'', JString sid)])\<rparr>))"

record replay_options =
  replay_game :: string
  replay_version :: string
  replay_mode :: string
  replay_event :: string
  replay_rgsUrl :: "string option"

definition replay :: "fetcher \<Rightarrow> url_search_params \<Rightarrow> replay_options \<Rightarrow> outcome" where
  "replay fetcher search options =
     (let urlParams = getUrlParams search;
          rgsUrl = js_or (replay_rgsUrl options) (url_rgsUrl urlParams)
      in case (if truthy rgsUrl then rgsUrl else None) of
           None \<Rightarrow> throw rgsUrl_required
         | Some host \<Rightarrow>
             get fetcher
               \<lparr>get_url = ''/bet/replay/'' @ replay_game options @ ''/'' @ replay_version options
                            @ ''/'' @ replay_mode options @ ''/'' @ replay_event options,
                get_rgsUrl = host\<rparr>)"

subsection \<open>Deprecated aliases\<close>

text \<open>Each \<open>export const alias = operation;\<close> of the client module.\<close>

definition requestBet :: "fetcher \<Rightarrow> url_search_params \<Rightarrow> play_options \<Rightarrow> outcome" where
  "requestBet = play"

definition requestAuthenticate ::
  "fetcher \<Rightarrow> url_search_params \<Rightarrow> authenticate_options option \<Rightarrow> outcome" where
  "requestAuthenticate = authenticate"

definition requestBalance ::
  "fetcher \<Rightarrow> url_search_params \<Rightarrow> getBalance_options option \<Rightarrow> outcome" where
  "requestBalance = getBalance"

definition requestEndRound ::
  "fetcher \<Rightarrow> url_search_params \<Rightarrow> endRound_options option \<Rightarrow> outcome" where
  "requestEndRound = endRound"

definition requestEndEvent :: "fetcher \<Rightarrow> url_search_params \<Rightarrow> endEvent_options \<Rightarrow> outcome" where
  "requestEndEvent = endEvent"

definition requestForceResult ::
  "fetcher \<Rightarrow> url_search_params \<Rightarrow> forceResult_options \<Rightarrow> outcome" where
  "requestForceResult = forceResult"

definition requestReplay :: "fetcher \<Rightarrow> url_search_params \<Rightarrow> replay_options \<Rightarrow> outcome" where
  "requestReplay = replay"

subsection \<open>The module's exports\<close>

text \<open>
  What a name exported by the client module is bound to: one of the seven operations (as
  a function value), or something that is not an operation (the class, its default
  instance, the two replay helpers).
\<close>

datatype binding =
    AuthenticateFn "fetcher \<Rightarrow> url_search_params \<Rightarrow> authenticate_options option \<Rightarrow> outcome"
  | PlayFn "fetcher \<Rightarrow> url_search_params \<Rightarrow> play_options \<Rightarrow> outcome"
  | EndRoundFn "fetcher \<Rightarrow> url_search_params \<Rightarrow> endRound_options option \<Rightarrow> outcome"
  | EndEventFn "fetcher \<Rightarrow> url_search_params \<Rightarrow> endEvent_options \<Rightarrow> outcome"
  | ForceResultFn "fetcher \<Rightarrow> url_search_params \<Rightarrow> forceResult_options \<Rightarrow> outcome"
  | GetBalanceFn "fetcher \<Rightarrow> url_search_params \<Rightarrow> getBalance_options option \<Rightarrow> outcome"
  | ReplayFn "fetcher \<Rightarrow> url_search_params \<Rightarrow> replay_options \<Rightarrow> outcome"
  | NotAnOperation

text \<open>The \<open>export\<close> declarations of the client module, in the order of the file.\<close>

definition client_exports :: "(string \<times> binding) list" where
  "client_exports =
     [(''StakeEngineClient'', NotAnOperation),
      (''stakeEngineClient'', NotAnOperation),
      (''getReplayUrlParams'', NotAnOperation),
      (''isReplayMode'', NotAnOperation),
      (''authenticate'', AuthenticateFn authenticate),
      (''play'', PlayFn play),
      (''requestBet'', PlayFn requestBet),
      (''endRound'', EndRoundFn endRound),
      (''endEvent'', EndEventFn endEvent),
      (''forceResult'', ForceResultFn forceResult),
      (''getBalance'', GetBalanceFn getBalance),
      (''replay'', ReplayFn replay),
      (''requestAuthenticate'', AuthenticateFn requestAuthenticate),
      (''requestBalance'', GetBalanceFn requestBalance),
      (''requestEndRound'', EndRoundFn requestEndRound),
      (''requestEndEvent'', EndEventFn requestEndEvent),
      (''requestForceResult'', ForceResultFn requestForceResult),
      (''requestReplay'', ReplayFn requestReplay)]"

text \<open>The names \<open>index.ts\<close> re-exports with \<open>export { ... } from './client'\<close>.\<close>

definition index_reexports :: "string list" where
  "index_reexports =
     [''StakeEngineClient'', ''stakeEngineClient'', ''authenticate'', ''getBalance'', ''play'',
      ''endRound'', ''endEvent'', ''forceResult'', ''replay'', ''getReplayUrlParams'',
      ''isReplayMode'',
      ''requestAuthenticate'', ''requestBalance'', ''requestPlay'', ''requestBet'', ''bet'',
      ''requestEndRound'', ''requestEndEvent'', ''requestForceResult'', ''requestReplay'']"

text \<open>
  What the package gives for a name: the client module's binding of a re-exported name,
  if the client module has one.
\<close>

definition package_export :: "string \<Rightarrow> binding option" where
  "package_export name =
     (if name \<in> set index_reexports then map_of client_exports name else None)"

section \<open>The host\<close>

text \<open>
  The operations read the URL context through \<open>getUrlParams()\<close>, whose first step is
  \<open>new URLSearchParams(window.location.search)\<close>, with no guard. Each operation calls it
  in its first statement, before it looks at its options. In a browser \<open>window\<close> exists and
  the read gives the page's query string. In a host that declares no \<open>window\<close> (Node.js)
  the read of the identifier throws a \<open>ReferenceError\<close> and the operation ends there:
  its promise is rejected and nothing was sent.
\<close>

datatype host = Browser url_search_params | NoWindow

text \<open>The expression \<open>window.location.search\<close>, parsed into its pairs.\<close>

definition window_location_search :: "host \<Rightarrow> error + url_search_params" where
  "window_location_search h =
     (case h of
        Browser search \<Rightarrow> Inr search
      | NoWindow \<Rightarrow> Inl (ReferenceError ''window is not defined''))"

text \<open>An operation, given its transport and its options, run in a host.\<close>

definition in_host :: "host \<Rightarrow> (url_search_params \<Rightarrow> outcome) \<Rightarrow> outcome" where
  "in_host h operation =
     (case window_location_search h of
        Inl e \<Rightarrow> throw e
      | Inr search \<Rightarrow> operation search)"

section \<open>The resolution order, as the specification words it\<close>

text \<open>
  The specification: per field, highest priority first, (a) the explicit option if it
  is not undefined or empty, (b) the ambient-context value if present, (c) a fixed
  default, \<open>en\<close> for the language and \<open>USD\<close> for the currency; the session identifier and
  the server host have no default. A value is present when it is a non-empty string, as
  for the explicit option. \<open>spec_resolve\<close> is the order without a default (\<open>None\<close>: the
  resolution fails), \<open>spec_resolve_default\<close> the order with one.
\<close>

definition present :: "string option \<Rightarrow> bool" where
  "present v = (case v of None \<Rightarrow> False | Some s \<Rightarrow> s \<noteq> [])"

definition spec_resolve :: "string option \<Rightarrow> string option \<Rightarrow> string option" where
  "spec_resolve explicit ambient =
     (if present explicit then explicit
      else if present ambient then ambient
      else None)"

definition spec_resolve_default :: "string option \<Rightarrow> string option \<Rightarrow> string \<Rightarrow> string" where
  "spec_resolve_default explicit ambient fallback =
     (case spec_resolve explicit ambient of None \<Rightarrow> fallback | Some v \<Rightarrow> v)"

section \<open>Reading a request\<close>

text \<open>The field of a request's JSON body, and the list of fields of the requests issued.\<close>

definition request_field :: "string \<Rightarrow> fetcher_options \<Rightarrow> jsvalue option" where
  "request_field name request =
     (case variables request of
        Some (JObject kvs) \<Rightarrow> map_of kvs name
      | _ \<Rightarrow> None)"

definition requests :: "outcome \<Rightarrow> fetcher_options list" where
  "requests out = snd out"

definition result :: "outcome \<Rightarrow> error + jsvalue" where
  "result out = fst out"

text \<open>
  The query string of a URL is what follows its first question mark; what precedes it is
  the scheme, the host and the path.
\<close>

definition url_query :: "string \<Rightarrow> string option" where
  "url_query url =
     (case dropWhile (\<lambda>c. c \<noteq> CHR ''?'') url of [] \<Rightarrow> None | c # rest \<Rightarrow> Some rest)"

definition url_before_query :: "string \<Rightarrow> string" where
  "url_before_query url = takeWhile (\<lambda>c. c \<noteq> CHR ''?'') url"

section \<open>Facts about binary64 rounding\<close>

lemma pow2_pos: "0 < pow2 e"
  by (simp add: pow2_def)

lemma pow2_add: "pow2 (a + b) = pow2 a * pow2 b"
proof -
  have "pow2 e = 2 powi e" for e
    by (simp add: pow2_def power_int_def inverse_eq_divide power_one_over)
  then show ?thesis by (simp add: power_int_add)
qed

lemma pow2_mono: "a \<le> b \<Longrightarrow> pow2 a \<le> pow2 b"
proof -
  assume "a \<le> b"
  then have "pow2 b = pow2 a * pow2 (b - a)" using pow2_add [of a "b - a"] by simp
  moreover have "1 \<le> pow2 (b - a)" using \<open>a \<le> b\<close> by (simp add: pow2_def)
  ultimately show ?thesis using pow2_pos [of a] by simp
qed

lemma pow2_less_imp: "pow2 a < pow2 b \<Longrightarrow> a < b"
  using pow2_mono [of b a] by (cases "a < b") auto

lemma floor_log2_le:
  assumes "0 < a"
  shows "pow2 (floor_log2 a) \<le> a"
proof (cases "1 \<le> a")
  case True
  then have pos: "0 < \<lfloor>a\<rfloor>" by simp
  then have b1: "1 \<le> bitlen \<lfloor>a\<rfloor>" by (simp add: bitlen_alt_def)
  have "2 ^ nat (bitlen \<lfloor>a\<rfloor> - 1) \<le> \<lfloor>a\<rfloor>" using bitlen_bounds [OF pos] by simp
  then have "(of_int (2 ^ nat (bitlen \<lfloor>a\<rfloor> - 1)) :: rat) \<le> of_int \<lfloor>a\<rfloor>"
    by (simp only: of_int_le_iff)
  also have "\<dots> \<le> a" by simp
  finally show ?thesis using True b1 by (simp add: floor_log2_def pow2_def)
next
  case False
  define c where "c = \<lceil>1 / a\<rceil> - 1"
  define b where "b = bitlen c"
  have "1 < 1 / a" using False assms by simp
  then have "1 < \<lceil>1 / a\<rceil>" by (simp add: less_ceiling_iff)
  then have cpos: "0 < c" by (simp add: c_def)
  then have b1: "1 \<le> b" by (simp add: b_def bitlen_alt_def)
  have "c < 2 ^ nat b" using bitlen_bounds [OF cpos] by (simp add: b_def)
  then have "\<lceil>1 / a\<rceil> \<le> 2 ^ nat b" by (simp add: c_def)
  then have "1 / a \<le> of_int (2 ^ nat b)" by (simp only: ceiling_le_iff)
  then have "1 / a \<le> 2 ^ nat b" by simp
  then have "1 \<le> 2 ^ nat b * a" using assms by (simp add: field_simps)
  then have "1 / 2 ^ nat b \<le> a" by (simp add: field_simps)
  then show ?thesis using False b1 by (simp add: floor_log2_def pow2_def b_def c_def)
qed

lemma round_half_even_of_int: "round_half_even (of_int z) = z"
  by (simp add: round_half_even_def)

lemma round_half_even_nonneg: "0 \<le> r \<Longrightarrow> 0 \<le> round_half_even r"
  by (auto simp add: round_half_even_def Let_def)

lemma round_double_nonneg: "0 \<le> q \<Longrightarrow> non_negative (round_double q)"
  by (auto simp add: round_double_def Let_def pow2_pos round_half_even_nonneg less_imp_le)

lemma round_double_exact:
  assumes m: "m \<noteq> 0" "\<bar>m\<bar> < 2 ^ 53" and j: "- 1074 \<le> j" "j \<le> 971"
  shows "round_double (of_int m * pow2 j) = Num (of_int m * pow2 j)"
proof -
  define q where "q = of_int m * pow2 j"
  define a where "a = \<bar>q\<bar>"
  define e where "e = max (floor_log2 a) (- 1022)"
  have a_eq: "a = of_int \<bar>m\<bar> * pow2 j"
    using pow2_pos [of j] by (simp add: a_def q_def abs_mult)
  have apos: "0 < a" using m pow2_pos [of j] by (simp add: a_eq)
  have qne: "q \<noteq> 0" using apos by (simp add: a_def)
  have "(of_int \<bar>m\<bar> :: rat) < of_int (2 ^ 53)" using m(2) by (simp only: of_int_less_iff)
  then have "a < pow2 53 * pow2 j" using pow2_pos [of j] by (simp add: a_eq pow2_def)
  then have a_lt: "a < pow2 (53 + j)" by (simp add: pow2_add)
  then have "pow2 (floor_log2 a) < pow2 (53 + j)" using floor_log2_le [OF apos] by simp
  then have "floor_log2 a < 53 + j" by (rule pow2_less_imp)
  then have e_le: "e - 52 \<le> j" using j by (simp add: e_def)
  define d where "d = nat (j - (e - 52))"
  have "pow2 j = pow2 (e - 52) * pow2 (int d)"
    using e_le pow2_add [of "e - 52" "int d"] by (simp add: d_def)
  then have quot: "a / pow2 (e - 52) = of_int (\<bar>m\<bar> * 2 ^ d)"
    using pow2_pos [of "e - 52"] by (simp add: a_eq pow2_def)
  have zp: "of_int (\<bar>m\<bar> * 2 ^ d) * pow2 (e - 52) = a"
    using quot pow2_pos [of "e - 52"] by (simp add: field_simps)
  have "round_half_even (a / pow2 (e - 52)) = \<bar>m\<bar> * 2 ^ d"
    by (simp only: quot round_half_even_of_int)
  then have r: "of_int (round_half_even (a / pow2 (e - 52))) * pow2 (e - 52) = a"
    using zp by simp
  have "a < pow2 1024" using a_lt pow2_mono [of "53 + j" 1024] j by simp
  then have no_ovf: "\<not> pow2 1024 \<le> a" by simp
  have "round_double q = Num (if 0 < q then a else - a)"
    unfolding round_double_def Let_def
    using qne r no_ovf by (simp add: a_def [symmetric] e_def [symmetric])
  then show ?thesis by (simp add: a_def q_def [symmetric])
qed

lemma round_double_int:
  assumes "\<bar>m\<bar> < 2 ^ 53"
  shows "round_double (of_int m) = Num (of_int m)"
proof (cases "m = 0")
  case True
  then show ?thesis by (simp add: round_double_def)
next
  case False
  then show ?thesis using round_double_exact [of m 0] assms by (simp add: pow2_def)
qed

text \<open>
  A value in the normal range is rounded to a multiple of the unit in the last place of
  its binade, at most half a unit away; and a value less than half a unit away from a
  double that is not a power of two is rounded to that double.
\<close>

lemma floor_log2_gt:
  assumes "0 < a"
  shows "a < pow2 (floor_log2 a + 1)"
proof (cases "1 \<le> a")
  case True
  then have pos: "0 < \<lfloor>a\<rfloor>" by simp
  then have b1: "1 \<le> bitlen \<lfloor>a\<rfloor>" by (simp add: bitlen_alt_def)
  have "\<lfloor>a\<rfloor> < 2 ^ nat (bitlen \<lfloor>a\<rfloor>)" using bitlen_bounds [OF pos] by simp
  then have "a < of_int (2 ^ nat (bitlen \<lfloor>a\<rfloor>))" by (simp only: floor_less_iff)
  then show ?thesis using True b1 by (simp add: floor_log2_def pow2_def)
next
  case False
  define c where "c = \<lceil>1 / a\<rceil> - 1"
  define b where "b = bitlen c"
  have "1 < 1 / a" using False assms by simp
  then have "1 < \<lceil>1 / a\<rceil>" by (simp add: less_ceiling_iff)
  then have cpos: "0 < c" by (simp add: c_def)
  then have b1: "1 \<le> b" by (simp add: b_def bitlen_alt_def)
  have "2 ^ nat (b - 1) \<le> c" using bitlen_bounds [OF cpos] by (simp add: b_def)
  then have "2 ^ nat (b - 1) < \<lceil>1 / a\<rceil>" by (simp add: c_def)
  then have "of_int (2 ^ nat (b - 1)) < 1 / a" by (simp only: less_ceiling_iff)
  then have "2 ^ nat (b - 1) < 1 / a" by simp
  then have "2 ^ nat (b - 1) * a < 1" using assms by (simp add: field_simps)
  then have lt: "a < 1 / 2 ^ nat (b - 1)" by (simp add: field_simps)
  have "pow2 (- b + 1) = 1 / 2 ^ nat (b - 1)"
    using b1 by (cases "b = 1") (simp_all add: pow2_def)
  then show ?thesis using False lt by (simp add: floor_log2_def b_def c_def)
qed

lemma floor_log2_unique:
  assumes "pow2 e \<le> a" "a < pow2 (e + 1)"
  shows "floor_log2 a = e"
proof -
  have apos: "0 < a" using pow2_pos [of e] assms(1) by simp
  have "pow2 e < pow2 (floor_log2 a + 1)" using assms(1) floor_log2_gt [OF apos] by simp
  then have "e < floor_log2 a + 1" by (rule pow2_less_imp)
  moreover have "pow2 (floor_log2 a) < pow2 (e + 1)" using assms(2) floor_log2_le [OF apos] by simp
  then have "floor_log2 a < e + 1" by (rule pow2_less_imp)
  ultimately show ?thesis by simp
qed

lemma round_half_even_near:
  assumes "\<bar>r - of_int z\<bar> < 1 / 2"
  shows "round_half_even r = z"
proof -
  have "\<lfloor>r\<rfloor> = z \<or> \<lfloor>r\<rfloor> = z - 1"
    using assms by (auto simp add: floor_eq_iff abs_less_iff)
  then show ?thesis
    using assms
    by (auto simp add: round_half_even_def Let_def abs_less_iff)
qed

lemma round_half_even_error: "\<bar>of_int (round_half_even r) - r\<bar> \<le> 1 / 2"
proof -
  have "of_int \<lfloor>r\<rfloor> \<le> r" "r < of_int \<lfloor>r\<rfloor> + 1" by linarith+
  then show ?thesis
    by (auto simp add: round_half_even_def Let_def abs_le_iff)
qed

lemma pow2_nat: "pow2 (int n) = 2 ^ n"
  by (simp add: pow2_def)

lemma pow2_shift: "pow2 (e + int n) = pow2 e * 2 ^ n"
  by (simp add: pow2_add pow2_nat)

lemma pow2_up:
  assumes "b = a + int n"
  shows "pow2 b = 2 ^ n * pow2 a"
  using assms by (simp add: pow2_shift)

lemma round_double_normal:
  assumes lo: "pow2 e \<le> a" and hi: "a < pow2 (e + 1)" and e: "- 1022 \<le> e" "e \<le> 1022"
  shows "round_double a = Num (of_int (round_half_even (a / pow2 (e - 52))) * pow2 (e - 52))"
proof -
  define u where "u = pow2 (e - 52)"
  have upos: "0 < u" by (simp add: u_def pow2_pos)
  have apos: "0 < a" using pow2_pos [of e] lo by simp
  have fl: "floor_log2 a = e" using lo hi by (rule floor_log2_unique)
  have "pow2 (e + 1) = 2 ^ 53 * u"
    unfolding u_def by (rule pow2_up) simp
  then have "a / u < 2 ^ 53" using hi upos by (simp add: field_simps)
  moreover have "\<bar>of_int (round_half_even (a / u)) - a / u\<bar> \<le> 1 / 2"
    by (rule round_half_even_error)
  then have "of_int (round_half_even (a / u)) - a / u \<le> 1 / 2"
    by (simp only: abs_le_iff)
  ultimately have "(of_int (round_half_even (a / u)) :: rat) < 2 ^ 53 + 1"
    by linarith
  then have "(of_int (round_half_even (a / u)) :: rat) < of_int (2 ^ 53 + 1)" by simp
  then have "round_half_even (a / u) < 2 ^ 53 + 1" by (simp only: of_int_less_iff)
  then have "round_half_even (a / u) \<le> 2 ^ 53" by simp
  then have "(of_int (round_half_even (a / u)) :: rat) \<le> of_int (2 ^ 53)"
    by (simp only: of_int_le_iff)
  then have "of_int (round_half_even (a / u)) * u \<le> 2 ^ 53 * u"
    using upos by simp
  also have "\<dots> = pow2 (e + 1)"
    unfolding u_def by (rule pow2_up [symmetric]) simp
  also have "\<dots> \<le> pow2 1023" using e by (intro pow2_mono) simp
  also have "\<dots> < pow2 1024" by (simp add: pow2_def)
  finally have no_ovf: "\<not> pow2 1024 \<le> of_int (round_half_even (a / u)) * u" by simp
  have mx: "max e (- 1022) = e" using e by simp
  show ?thesis
    unfolding round_double_def Let_def
    using apos no_ovf by (simp add: fl mx u_def [symmetric])
qed

lemma round_double_near:
  assumes m: "2 ^ 52 < m" "m < 2 ^ 53" and e: "- 1022 \<le> e" "e \<le> 1022"
    and near: "\<bar>t - of_int m * pow2 (e - 52)\<bar> < pow2 (e - 52) / 2"
  shows "round_double t = Num (of_int m * pow2 (e - 52))"
proof -
  define u where "u = pow2 (e - 52)"
  have upos: "0 < u" by (simp add: u_def pow2_pos)
  have pe: "pow2 e = 2 ^ 52 * u" unfolding u_def by (rule pow2_up) simp
  have pe1: "pow2 (e + 1) = 2 ^ 53 * u" unfolding u_def by (rule pow2_up) simp
  have n1: "of_int m * u - t < u / 2" and n2: "t - of_int m * u < u / 2"
    using near by (simp_all only: u_def [symmetric] abs_less_iff) linarith+
  have "2 ^ 52 + 1 \<le> m" using m(1) by simp
  then have "(of_int (2 ^ 52 + 1) :: rat) \<le> of_int m" by (simp only: of_int_le_iff)
  then have "of_int (2 ^ 52 + 1) * u \<le> of_int m * u" using upos by simp
  then have "2 ^ 52 * u + u \<le> of_int m * u" by (simp add: algebra_simps)
  then have lo: "pow2 e \<le> t"
    unfolding pe using n1 upos by linarith
  have "m \<le> 2 ^ 53 - 1" using m(2) by simp
  then have "(of_int m :: rat) \<le> of_int (2 ^ 53 - 1)" by (simp only: of_int_le_iff)
  then have "of_int m * u \<le> of_int (2 ^ 53 - 1) * u" using upos by simp
  then have "of_int m * u \<le> 2 ^ 53 * u - u" by (simp add: algebra_simps)
  then have hi: "t < pow2 (e + 1)"
    unfolding pe1 using n2 upos by linarith
  have "t / u - of_int m = (t - of_int m * u) / u" using upos by (simp add: field_simps)
  then have "\<bar>t / u - of_int m\<bar> = \<bar>t - of_int m * u\<bar> / u"
    using upos by (simp add: abs_divide)
  also have "\<dots> < 1 / 2" using near upos by (simp add: u_def [symmetric] field_simps)
  finally have "round_half_even (t / u) = m" by (rule round_half_even_near)
  then show ?thesis
    using round_double_normal [OF lo hi e] by (simp add: u_def)
qed

lemma round_double_power_of_two:
  assumes j: "- 1022 \<le> j" "j \<le> 900"
  shows "round_double (pow2 j * 1000000) = Num (pow2 j * 1000000)"
    and "round_double (pow2 j) = Num (pow2 j)"
  using round_double_exact [of 1000000 j] round_double_exact [of 1 j] j
  by (simp_all add: mult.commute)

lemma round_double_minus:
  "round_double (- q) =
     (case round_double q of
        Num r \<Rightarrow> Num (- r) | PosInfinity \<Rightarrow> NegInfinity | NegInfinity \<Rightarrow> PosInfinity
      | NaN \<Rightarrow> NaN)"
  by (simp add: round_double_def Let_def)

section \<open>The operations in terms of the resolution order\<close>

lemma present_truthy: "present v = truthy v"
  by (cases v) (simp_all add: present_def)

lemma required_check: "(if truthy (js_or a b) then js_or a b else None) = spec_resolve a b"
  by (simp add: js_or_def spec_resolve_def present_truthy)

lemma default_chain: "js_or_string a (js_or_string b d) = spec_resolve_default a b d"
  by (cases a; cases b) (simp_all add: js_or_string_def spec_resolve_default_def spec_resolve_def present_def)

lemma spec_resolve_explicit: "present a \<Longrightarrow> spec_resolve a b = a"
  by (simp add: spec_resolve_def)

lemma spec_resolve_default_explicit: "present a \<Longrightarrow> spec_resolve_default a b d = the a"
  by (cases a) (simp_all add: spec_resolve_default_def spec_resolve_def present_def)

lemma authenticate_resolved:
  "authenticate f q options =
     (case spec_resolve (Option.bind options auth_sessionID) (usp_get q ''sessionID'') of
        None \<Rightarrow> throw sessionID_required
      | Some sid \<Rightarrow>
          (case spec_resolve (Option.bind options auth_rgsUrl) (usp_get q ''rgs_url'') of
             None \<Rightarrow> throw rgsUrl_required
           | Some host \<Rightarrow>
               post f
                 \<lparr>post_url = ''/wallet/authenticate'',
                  post_rgsUrl = host,
                  post_variables =
                    Some (JObject
                      [(''sessionID'', JString sid),
                       (''language'',
                        JString (spec_resolve_default (Option.bind options auth_language)
                                   (usp_get q ''lang'') ''en''))])\<rparr>))"
  by (simp add: authenticate_def getUrlParams_def Let_def required_check default_chain
      split del: if_split cong: option.case_cong)

lemma play_resolved:
  "play f q options =
     (case spec_resolve (play_sessionID options) (usp_get q ''sessionID'') of
        None \<Rightarrow> throw sessionID_required
      | Some sid \<Rightarrow>
          (case spec_resolve (play_rgsUrl options) (usp_get q ''rgs_url'') of
             None \<Rightarrow> throw rgsUrl_required
           | Some host \<Rightarrow>
               post f
                 \<lparr>post_url = ''/wallet/play'',
                  post_rgsUrl = host,
                  post_variables =
                    Some (JObject
                      [(''mode'', JString (play_mode options)),
                       (''currency'',
                        JString (spec_resolve_default (play_currency options)
                                   (usp_get q ''currency'') ''USD'')),
                       (''sessionID'', JString sid),
                       (''amount'',
                        JNum (js_mul (play_amount options) API_AMOUNT_MULTIPLIER))])\<rparr>))"
  by (simp add: play_def getUrlParams_def Let_def required_check default_chain
      split del: if_split cong: option.case_cong)

lemma endRound_resolved:
  "endRound f q options =
     (case spec_resolve (Option.bind options endRound_sessionID) (usp_get q ''sessionID'') of
        None \<Rightarrow> throw sessionID_required
      | Some sid \<Rightarrow>
          (case spec_resolve (Option.bind options endRound_rgsUrl) (usp_get q ''rgs_url'') of
             None \<Rightarrow> throw rgsUrl_required
           | Some host \<Rightarrow>
               post f
                 \<lparr>post_url = ''/wallet/end-round'',
                  post_rgsUrl = host,
                  post_variables = Some (JObject [(''sessionID'', JString sid)])\<rparr>))"
  by (simp add: endRound_def getUrlParams_def Let_def required_check
      split del: if_split cong: option.case_cong)

lemma endEvent_resolved:
  "endEvent f q options =
     (case spec_resolve (endEvent_sessionID options) (usp_get q ''sessionID'') of
        None \<Rightarrow> throw sessionID_required
      | Some sid \<Rightarrow>
          (case spec_resolve (endEvent_rgsUrl options) (usp_get q ''rgs_url'') of
             None \<Rightarrow> throw rgsUrl_required
           | Some host \<Rightarrow>
               post f
                 \<lparr>post_url = ''/bet/event'',
                  post_rgsUrl = host,
                  post_variables =
                    Some (JObject
                      [(''sessionID'', JString sid),
                       (''event'', JString (number_to_string (endEvent_eventIndex options)))])\<rparr>))"
  by (simp add: endEvent_def getUrlParams_def Let_def required_check
      split del: if_split cong: option.case_cong)

lemma forceResult_resolved:
  "forceResult f q options =
     (case spec_resolve (forceResult_rgsUrl options) (usp_get q ''rgs_url'') of
        None \<Rightarrow> throw rgsUrl_required
      | Some host \<Rightarrow>
          post f
            \<lparr>post_url = ''/game/search'',
             post_rgsUrl = host,
             post_variables =
               Some (JObject [(''mode'', JString (forceResult_mode options)),
                              (''search'', forceResult_search options)])\<rparr>)"
  by (simp add: forceResult_def getUrlParams_def Let_def required_check
      split del: if_split cong: option.case_cong)

lemma getBalance_resolved:
  "getBalance f q options =
     (case spec_resolve (Option.bind options getBalance_sessionID) (usp_get q ''sessionID'') of
        None \<Rightarrow> throw sessionID_required
      | Some sid \<Rightarrow>
          (case spec_resolve (Option.bind options getBalance_rgsUrl) (usp_get q ''rgs_url'') of
             None \<Rightarrow> throw rgsUrl_required
           | Some host \<Rightarrow>
               post f
                 \<lparr>post_url = ''/wallet/balance'',
                  post_rgsUrl = host,
                  post_variables = Some (JObject [(''sessionID'', JString sid)])\<rparr>))"
  by (simp add: getBalance_def getUrlParams_def Let_def required_check
      split del: if_split cong: option.case_cong)

lemma replay_resolved:
  "replay f q options =
     (case spec_resolve (replay_rgsUrl options) (usp_get q ''rgs_url'') of
        None \<Rightarrow> throw rgsUrl_required
      | Some host \<Rightarrow>
          get f
            \<lparr>get_url = ''/bet/replay/'' @ replay_game options @ ''/'' @ replay_version options
                         @ ''/'' @ replay_mode options @ ''/'' @ replay_event options,
             get_rgsUrl = host\<rparr>)"
  by (simp add: replay_def getUrlParams_def Let_def required_check
      split del: if_split cong: option.case_cong)

lemma post_requests:
  "requests (post f options) =
     [\<lparr>http_method = POST,
       endpoint = ''https://'' @ post_rgsUrl options @ post_url options,
       variables = post_variables options\<rparr>]"
  by (simp add: post_def requests_def Let_def split: sum.splits)

lemma get_requests:
  "requests (get f options) =
     [\<lparr>http_method = GET,
       endpoint = ''https://'' @ get_rgsUrl options @ get_url options,
       variables = None\<rparr>]"
  by (simp add: get_def requests_def Let_def split: sum.splits)

lemma spec_resolve_None: "\<not> present a \<Longrightarrow> \<not> present b \<Longrightarrow> spec_resolve a b = None"
  by (simp add: spec_resolve_def)

lemma spec_resolve_Some: "present a \<or> present b \<Longrightarrow> \<exists>v. spec_resolve a b = Some v"
  by (cases a; cases b) (auto simp add: spec_resolve_def present_def)

section \<open>Evaluating the arithmetic on numerals\<close>

lemma floor_rat_numeral: "\<lfloor>(numeral a :: rat) / numeral b\<rfloor> = numeral a div numeral b"
  using floor_divide_of_int_eq [of "numeral a" "numeral b", where ?'a = rat] by simp

lemma ceiling_rat_numeral: "\<lceil>(numeral a :: rat) / numeral b\<rceil> = - (- numeral a div numeral b)"
  using ceiling_divide_eq_div [of "numeral a" "numeral b", where ?'a = rat] by simp

lemma bitlen_numeral: "bitlen (numeral k) = bitlen (numeral k div 2) + 1"
  by (subst compute_bitlen) simp

lemma bitlen_one: "bitlen 1 = 1"
  by (subst compute_bitlen) simp

lemmas eval_double = round_double_def floor_log2_def pow2_def round_half_even_def Let_def
  bitlen_numeral bitlen_one floor_rat_numeral ceiling_rat_numeral

text \<open>
  A decimal that binary64 does not represent: the literal \<open>0.07\<close> is the nearest double,
  and its product with the multiplier rounds to the integer 70000.
\<close>

lemma seven_hundredths: "round_double (7 / 100) = Num (1261007895663739 / 18014398509481984)"
  by (simp add: eval_double)

lemma mul_seven_hundredths:
  "js_mul (Num (1261007895663739 / 18014398509481984)) API_AMOUNT_MULTIPLIER = Num 70000"
  by (simp add: API_AMOUNT_MULTIPLIER_def eval_double)

text \<open>
  The literal \<open>2.01\<close> is the nearest double as well, but its product with the multiplier
  rounds to a double just below 2010000.
\<close>

lemma two_point_01: "round_double (201 / 100) = Num (1131529406376837 / 562949953421312)"
  by (simp add: eval_double)

lemma mul_two_point_01:
  "js_mul (Num (1131529406376837 / 562949953421312)) API_AMOUNT_MULTIPLIER
   = Num (8632884264959999 / 4294967296)"
  by (simp add: API_AMOUNT_MULTIPLIER_def eval_double)

lemma floor_rat_half: "\<lfloor>(1 :: rat) / 2\<rfloor> = 0"
  by (simp add: floor_eq_iff)

lemma math_round_int: "math_round (Num (of_int m)) = Num (of_int m)"
proof -
  have "\<lfloor>(of_int m :: rat) + 1 / 2\<rfloor> = m"
    by (simp add: floor_eq_iff)
  then show ?thesis by simp
qed

lemma mul_one: "js_mul (Num 1) API_AMOUNT_MULTIPLIER = Num 1000000"
  using round_double_int [of 1000000] by (simp add: API_AMOUNT_MULTIPLIER_def)

lemma mul_ten_fifty: "js_mul (Num (21 / 2)) API_AMOUNT_MULTIPLIER = Num 10500000"
  using round_double_int [of 10500000] by (simp add: API_AMOUNT_MULTIPLIER_def)

lemma mul_zero: "js_mul (Num 0) API_AMOUNT_MULTIPLIER = Num 0"
  by (simp add: API_AMOUNT_MULTIPLIER_def round_double_def)

section \<open>The round trip of an amount\<close>

text \<open>
  An amount \<open>k/100\<close> is passed as the double \<open>x\<close> nearest to it. The product of \<open>x\<close> and
  1,000,000 lies in the binade of \<open>x\<close> shifted by 19 or by 20. In the first case the
  computed product is at most \<open>2^18\<close> units of \<open>x\<close> away from the exact one, so that the
  quotient is less than half a unit of \<open>x\<close> away from \<open>x\<close>. In the second case the integer
  \<open>k * 10000\<close> is a double of that binade, less than half a unit of the product away from
  the exact product: the computed product is \<open>k * 10000\<close>, and the quotient is the rounding
  of \<open>k/100\<close>, which is \<open>x\<close>.
\<close>

lemma two_decimals_round_trip:
  assumes k: "k * 10000 < (2::nat) ^ 53"
  shows "js_div (js_mul (round_double (of_nat k / 100)) API_AMOUNT_MULTIPLIER)
           API_AMOUNT_MULTIPLIER
         = round_double (of_nat k / 100)"
proof (cases "k = 0")
  case True
  then show ?thesis by (simp add: round_double_def API_AMOUNT_MULTIPLIER_def)
next
  case False
  define a :: rat where "a = of_nat k / 100"
  define e where "e = floor_log2 a"
  define u where "u = pow2 (e - 52)"
  define m where "m = round_half_even (a / u)"
  define x where "x = of_int m * u"
  have k1: "1 \<le> (of_nat k :: rat)" using False by simp
  then have apos: "0 < a" by (simp add: a_def)
  have upos: "0 < u" by (simp add: u_def pow2_pos)
  have lo: "pow2 e \<le> a" unfolding e_def using apos by (rule floor_log2_le)
  have hi: "a < pow2 (e + 1)" unfolding e_def using apos by (rule floor_log2_gt)
  have "pow2 (- 7) \<le> a" using k1 by (simp add: a_def pow2_def)
  then have "pow2 (- 7) < pow2 (e + 1)" using hi by simp
  then have "- 7 < e + 1" by (rule pow2_less_imp)
  then have e_lo: "- 7 \<le> e" by simp
  have "of_nat (k * 10000) < (of_nat (2 ^ 53) :: rat)" using k by (simp only: of_nat_less_iff)
  then have kk: "(of_nat k :: rat) * 10000 < 2 ^ 53" by simp
  then have "a < pow2 34" by (simp add: a_def pow2_def)
  then have "pow2 e < pow2 34" using lo by simp
  then have "e < 34" by (rule pow2_less_imp)
  then have e_hi: "e \<le> 33" by simp
  have rx: "round_double a = Num x"
    unfolding x_def m_def u_def using lo hi e_lo e_hi by (intro round_double_normal) simp_all
  have pe: "pow2 e = 2 ^ 52 * u" unfolding u_def by (rule pow2_up) simp
  have pe1: "pow2 (e + 1) = 2 ^ 53 * u" unfolding u_def by (rule pow2_up) simp
  have q_lo: "2 ^ 52 \<le> a / u" using lo [unfolded pe] upos by (simp add: field_simps)
  have q_hi: "a / u < 2 ^ 53" using hi [unfolded pe1] upos by (simp add: field_simps)
  have "\<bar>of_int m - a / u\<bar> \<le> 1 / 2" unfolding m_def by (rule round_half_even_error)
  then have d1: "of_int m - a / u \<le> 1 / 2" and d2: "a / u - of_int m \<le> 1 / 2"
    by (simp_all only: abs_le_iff) linarith+
  have au: "a / u * u = a" using upos by simp
  have "(of_int m - a / u) * u \<le> 1 / 2 * u" using d1 upos by (simp only: mult_le_cancel_right_pos)
  then have err1: "x - a \<le> u / 2" using upos by (simp add: x_def left_diff_distrib)
  have "(a / u - of_int m) * u \<le> 1 / 2 * u" using d2 upos by (simp only: mult_le_cancel_right_pos)
  then have err2: "a - x \<le> u / 2" using upos by (simp add: x_def left_diff_distrib)
  have q_lo': "(4503599627370496 :: rat) \<le> a / u" using q_lo by simp
  have "(4503599627370495 :: rat) < of_int m" using q_lo' d2 by linarith
  then have "4503599627370495 < m" by simp
  then have m_lo: "2 ^ 52 \<le> m" by simp
  have q_hi': "a / u < (9007199254740992 :: rat)" using q_hi by simp
  have "of_int m < (9007199254740993 :: rat)" using q_hi' d1 by linarith
  then have "m < 9007199254740993" by simp
  then have m_hi: "m \<le> 2 ^ 53" by simp
  have goal: "js_div (js_mul (Num x) (Num 1000000)) (Num 1000000) = Num x"
  proof (cases "m = 2 ^ 52 \<or> m = 2 ^ 53")
    case True
    then have "x = pow2 e \<or> x = pow2 (e + 1)" unfolding x_def pe pe1 by auto
    then obtain j where j: "x = pow2 j" "- 1022 \<le> j" "j \<le> 900"
      using e_lo e_hi by auto
    show ?thesis
      using round_double_power_of_two [OF j(2) j(3)] by (simp add: j(1))
  next
    case False
    then have m1: "2 ^ 52 < m" and m2: "m < 2 ^ 53" using m_lo m_hi by simp_all
    have "(of_int (2 ^ 52) :: rat) < of_int m" using m1 by (simp only: of_int_less_iff)
    then have "of_int (2 ^ 52) * u < of_int m * u" using upos by simp
    then have x_lo: "pow2 e < x" unfolding x_def pe by simp
    have "(of_int m :: rat) < of_int (2 ^ 53)" using m2 by (simp only: of_int_less_iff)
    then have "of_int m * u < of_int (2 ^ 53) * u" using upos by simp
    then have x_hi: "x < pow2 (e + 1)" unfolding x_def pe1 by simp
    define y where "y = x * 1000000"
    have p19: "pow2 (e + 19) = 2 ^ 19 * pow2 e" by (rule pow2_up) simp
    have p20: "pow2 (e + 20) = 2 ^ 20 * pow2 e" by (rule pow2_up) simp
    have p21: "pow2 (e + 21) = 2 ^ 20 * pow2 (e + 1)" by (rule pow2_up) simp
    have y_lo: "pow2 (e + 19) \<le> y" unfolding p19 y_def using x_lo pow2_pos [of e] by simp
    have y_hi: "y < pow2 (e + 21)" unfolding p21 y_def using x_hi pow2_pos [of "e + 1"] by simp
    show ?thesis
    proof (cases "y < pow2 (e + 20)")
      case True
      define U where "U = pow2 (e + 19 - 52)"
      define p where "p = of_int (round_half_even (y / U)) * U"
      have Upos: "0 < U" by (simp add: U_def pow2_pos)
      have Uu: "U = 2 ^ 19 * u" unfolding U_def u_def by (rule pow2_up) simp
      have "e + 19 + 1 = e + 20" by simp
      then have y20: "y < pow2 (e + 19 + 1)" using True by (simp only:)
      have ry: "round_double y = Num p"
        unfolding p_def U_def using y_lo y20 e_lo e_hi
        by (intro round_double_normal) simp_all
      have "\<bar>of_int (round_half_even (y / U)) - y / U\<bar> \<le> 1 / 2"
        by (rule round_half_even_error)
      then have c1: "of_int (round_half_even (y / U)) - y / U \<le> 1 / 2"
        and c2: "y / U - of_int (round_half_even (y / U)) \<le> 1 / 2"
        by (simp_all only: abs_le_iff) linarith+
      have yU: "y / U * U = y" using Upos by simp
      have "(of_int (round_half_even (y / U)) - y / U) * U \<le> 1 / 2 * U"
        using c1 Upos by (simp only: mult_le_cancel_right_pos)
      then have e1: "p - y \<le> U / 2" using Upos by (simp add: p_def left_diff_distrib)
      have "(y / U - of_int (round_half_even (y / U))) * U \<le> 1 / 2 * U"
        using c2 Upos by (simp only: mult_le_cancel_right_pos)
      then have e2: "y - p \<le> U / 2" using Upos by (simp add: p_def left_diff_distrib)
      have t1: "p / 1000000 - x < u / 2"
        using e1 upos by (simp add: y_def Uu field_simps)
      have t2: "x - p / 1000000 < u / 2"
        using e2 upos by (simp add: y_def Uu field_simps)
      have "\<bar>p / 1000000 - x\<bar> < u / 2"
        using t1 t2 by linarith
      then have "\<bar>p / 1000000 - of_int m * pow2 (e - 52)\<bar> < pow2 (e - 52) / 2"
        unfolding x_def u_def .
      then have "round_double (p / 1000000) = Num x"
        unfolding x_def u_def using m1 m2 e_lo e_hi by (intro round_double_near) simp_all
      then show ?thesis using ry by (simp add: y_def [symmetric])
    next
      case False
      then have y20: "pow2 (e + 20) \<le> y" by simp
      define U where "U = pow2 (e + 20 - 52)"
      define n where "n = int k * 625 * 2 ^ nat (36 - e)"
      have Upos: "0 < U" by (simp add: U_def pow2_pos)
      have Uu: "U = 2 ^ 20 * u" unfolding U_def u_def by (rule pow2_up) simp
      have "pow2 4 = 2 ^ nat (36 - e) * U"
        unfolding U_def using e_hi by (intro pow2_up) simp
      then have nU: "of_int n * U = of_nat k * 10000"
        by (simp add: n_def pow2_def) 
      have "e + 20 + 1 = e + 21" by simp
      then have y21: "y < pow2 (e + 20 + 1)" using y_hi by (simp only:)
      have ry: "round_double y = Num (of_int (round_half_even (y / U)) * U)"
        unfolding U_def using y20 y21 e_lo e_hi
        by (intro round_double_normal) simp_all
      have ya: "y - of_nat k * 10000 = (x - a) * 1000000" by (simp add: y_def a_def algebra_simps)
      have "y / U - of_int n = (y - of_int n * U) / U" using Upos by (simp add: field_simps)
      then have "y / U - of_int n = (x - a) * 1000000 / U" by (simp only: nU ya)
      moreover have "\<bar>d * 1000000 / U\<bar> = \<bar>d\<bar> * 1000000 / U" for d
        using Upos by (simp add: abs_mult abs_divide)
      ultimately have "\<bar>y / U - of_int n\<bar> = \<bar>x - a\<bar> * 1000000 / U"
        by (simp only:)
      moreover have "\<bar>x - a\<bar> \<le> u / 2" using err1 err2 by linarith
      then have "\<bar>x - a\<bar> * 1000000 / U < 1 / 2"
        using upos by (simp add: Uu field_simps)
      ultimately have "\<bar>y / U - of_int n\<bar> < 1 / 2" by simp
      then have "round_half_even (y / U) = n" by (rule round_half_even_near)
      then have "round_double y = Num (of_nat k * 10000)" using ry nU by simp
      moreover have "of_nat k * 10000 / 1000000 = a" by (simp add: a_def)
      ultimately show ?thesis using rx by (simp add: y_def [symmetric])
    qed
  qed
  show ?thesis using goal rx by (simp add: a_def [symmetric] API_AMOUNT_MULTIPLIER_def)
qed

lemma round_trip_minus:
  assumes "js_div (js_mul (round_double a) API_AMOUNT_MULTIPLIER) API_AMOUNT_MULTIPLIER
           = round_double a"
  shows "js_div (js_mul (round_double (- a)) API_AMOUNT_MULTIPLIER) API_AMOUNT_MULTIPLIER
         = round_double (- a)"
proof (cases "round_double a")
  case (Num x)
  then have rm: "round_double (- a) = Num (- x)" by (simp add: round_double_minus)
  from assms Num have d: "js_div (round_double (x * 1000000)) (Num 1000000) = Num x"
    by (simp add: API_AMOUNT_MULTIPLIER_def)
  show ?thesis
  proof (cases "round_double (x * 1000000)")
    case (Num p)
    then have mp: "round_double (- (x * 1000000)) = Num (- p)" by (simp add: round_double_minus)
    from d Num have "round_double (p / 1000000) = Num x" by simp
    then have "round_double (- (p / 1000000)) = Num (- x)" by (simp add: round_double_minus)
    then show ?thesis using rm mp by (simp add: API_AMOUNT_MULTIPLIER_def)
  qed (use d in simp_all)
qed (simp_all add: round_double_minus API_AMOUNT_MULTIPLIER_def)

lemma two_decimals_round_trip_int:
  assumes k: "\<bar>k\<bar> * 10000 < (2::int) ^ 53"
  shows "js_div (js_mul (round_double (of_int k / 100)) API_AMOUNT_MULTIPLIER)
           API_AMOUNT_MULTIPLIER
         = round_double (of_int k / 100)"
proof -
  have "nat \<bar>k\<bar> * 10000 < (2::nat) ^ 53" using k by (simp add: nat_less_iff nat_mult_distrib)
  then have n: "js_div (js_mul (round_double (of_nat (nat \<bar>k\<bar>) / 100)) API_AMOUNT_MULTIPLIER)
           API_AMOUNT_MULTIPLIER
         = round_double (of_nat (nat \<bar>k\<bar>) / 100)"
    by (rule two_decimals_round_trip)
  show ?thesis
  proof (cases "0 \<le> k")
    case True
    then have "(of_nat (nat \<bar>k\<bar>) :: rat) = of_int k" by simp
    then show ?thesis using n by simp
  next
    case False
    then have "(of_int k :: rat) / 100 = - (of_nat (nat \<bar>k\<bar>) / 100)" by simp
    then show ?thesis using round_trip_minus [OF n] by simp
  qed
qed

section \<open>Integers are written with their decimal digits\<close>

lemma show_nat_small: "n < 10 \<Longrightarrow> show_nat n = [digit_char n]"
  by (simp add: show_nat.simps)

lemma show_nat_large: "10 \<le> n \<Longrightarrow> show_nat n = show_nat (n div 10) @ [digit_char (n mod 10)]"
  by (subst show_nat.simps) simp

lemma length_show_nat_pos: "0 < length (show_nat n)"
  by (subst show_nat.simps) simp

lemma show_nat_upper: "n < 10 ^ length (show_nat n)"
proof (induction n rule: show_nat.induct)
  case (1 n)
  show ?case
  proof (cases "n < 10")
    case True
    then show ?thesis by (simp add: show_nat_small)
  next
    case False
    then have "n div 10 < 10 ^ length (show_nat (n div 10))" using 1 by simp
    then have "n < 10 * 10 ^ length (show_nat (n div 10))" by simp
    then show ?thesis using False by (simp add: show_nat_large)
  qed
qed

lemma show_nat_lower: "0 < n \<Longrightarrow> 10 ^ (length (show_nat n) - 1) \<le> n"
proof (induction n rule: show_nat.induct)
  case (1 n)
  show ?case
  proof (cases "n < 10")
    case True
    then show ?thesis using 1(2) by (simp add: show_nat_small)
  next
    case False
    then have pos: "0 < n div 10" by simp
    have "10 ^ (length (show_nat (n div 10)) - 1) \<le> n div 10" using 1(1) [OF False pos] .
    then have "10 * 10 ^ (length (show_nat (n div 10)) - 1) \<le> n" by simp
    moreover have "length (show_nat n) - 1 = Suc (length (show_nat (n div 10)) - 1)"
      using False length_show_nat_pos [of "n div 10"] by (simp add: show_nat_large)
    ultimately show ?thesis by simp
  qed
qed

lemma show_nat_times_ten: "0 < s \<Longrightarrow> show_nat (s * 10) = show_nat s @ ''0''"
  by (simp add: show_nat_large digit_char_def)

lemma show_nat_shift: "0 < s \<Longrightarrow> show_nat (s * 10 ^ z) = show_nat s @ replicate z CHR ''0''"
proof (induction z)
  case 0
  then show ?case by simp
next
  case (Suc z)
  have "s * 10 ^ Suc z = (s * 10 ^ z) * 10" by simp
  then have "show_nat (s * 10 ^ Suc z) = show_nat ((s * 10 ^ z) * 10)" by (rule arg_cong)
  also have "\<dots> = show_nat (s * 10 ^ z) @ ''0''" using Suc.prems by (intro show_nat_times_ten) simp
  also have "\<dots> = show_nat s @ replicate z CHR ''0'' @ ''0''" using Suc by simp
  also have "replicate z CHR ''0'' @ ''0'' = replicate (Suc z) CHR ''0''"
    by (simp add: replicate_append_same)
  finally show ?case .
qed

lemma trailing_zeros: "0 < (n::nat) \<Longrightarrow> \<exists>s z. n = s * 10 ^ z \<and> 0 < s \<and> \<not> 10 dvd s"
proof (induction n rule: less_induct)
  case (less n)
  show ?case
  proof (cases "10 dvd n")
    case False
    then have "n = n * 10 ^ 0 \<and> 0 < n \<and> \<not> 10 dvd n" using less.prems by simp
    then show ?thesis by blast
  next
    case True
    then obtain m where m: "n = 10 * m" by (auto simp add: dvd_def)
    then have "m < n" "0 < m" using less.prems by simp_all
    then obtain s z where "m = s * 10 ^ z" "0 < s" "\<not> 10 dvd s" using less.IH by blast
    then have "n = s * 10 ^ Suc z \<and> 0 < s \<and> \<not> 10 dvd s" using m by simp
    then show ?thesis by blast
  qed
qed

lemma not_dvd_shift:
  assumes "\<not> (10::nat) dvd s" and "z < j"
  shows "\<not> 10 ^ j dvd s * 10 ^ z"
proof
  assume "10 ^ j dvd s * 10 ^ z"
  moreover have "(10::nat) ^ j = 10 ^ (j - z) * 10 ^ z" using assms(2) by (simp flip: power_add)
  ultimately have "10 ^ (j - z) * 10 ^ z dvd s * (10::nat) ^ z" by simp
  then have "(10::nat) ^ (j - z) dvd s" by simp
  moreover have "(10::nat) dvd 10 ^ (j - z)" using assms(2) by (simp add: dvd_power)
  ultimately have "10 dvd s" by (rule dvd_trans [rotated])
  then show False using assms(1) by simp
qed

lemma shortest_digits_skip:
  "\<forall>k \<in> set ks. candidate x n k = None \<Longrightarrow> candidate x n k0 = Some r
   \<Longrightarrow> shortest_digits x n (ks @ k0 # rest) = r"
  by (induction ks) simp_all

lemma candidate_None:
  assumes "scale = pow10 (n - int k)" and "lo = nat \<lfloor>x / scale\<rfloor>"
    and "round_double (of_nat lo * scale) \<noteq> Num x"
    and "round_double (of_nat (lo + 1) * scale) \<noteq> Num x"
  shows "candidate x n k = None"
  using assms by (simp add: candidate_def Let_def)

lemma candidate_exact:
  assumes "scale = pow10 (n - int k)" and "lo = nat \<lfloor>x / scale\<rfloor>"
    and "of_nat lo * scale = x" and "round_double x = Num x" and "0 < scale"
  shows "candidate x n k = Some (lo, n)"
proof -
  have "of_nat (lo + 1) * scale - x = scale" using assms(3) by (simp add: algebra_simps)
  then have "\<not> (of_nat (lo + 1) * scale - x < x - of_nat lo * scale
      \<or> (of_nat (lo + 1) * scale - x = x - of_nat lo * scale \<and> odd lo))"
    using assms(3,5) by simp
  then show ?thesis
    using assms(3,4) unfolding candidate_def Let_def assms(1) [symmetric] assms(2) [symmetric]
    by (simp only: if_True if_False simp_thms split: if_splits) blast
qed

lemma pow10_diff: "k \<le> d \<Longrightarrow> pow10 (int d - int k) = 10 ^ (d - k)"
  by (simp add: pow10_def nat_diff_distrib)

lemma floor_nat_div: "nat \<lfloor>(of_nat n :: rat) / 10 ^ j\<rfloor> = n div 10 ^ j"
proof -
  have "\<lfloor>(of_nat n :: rat) / of_nat (10 ^ j)\<rfloor> = int (n div 10 ^ j)"
    by (rule floor_divide_of_nat_eq)
  then show ?thesis by simp
qed

lemma round_double_nat: "n < 2 ^ 53 \<Longrightarrow> round_double (of_nat n) = Num (of_nat n)"
  using round_double_int [of "int n"] by simp

lemma round_double_decimal:
  assumes "a * 10 ^ j \<le> (10::nat) ^ 16" and "0 < j"
  shows "round_double (of_nat a * 10 ^ j) = Num (of_nat a * 10 ^ j)"
proof (cases "a = 0")
  case True
  then show ?thesis by (simp add: round_double_def)
next
  case False
  have j971: "j \<le> 16"
  proof (rule ccontr)
    assume "\<not> j \<le> 16"
    then have "(10::nat) ^ 16 < 10 ^ j" using power_strict_increasing [of 16 j "10::nat"] by linarith
    also have "\<dots> \<le> a * 10 ^ j" using False by simp
    finally show False using assms(1) by simp
  qed
  have "a * 5 ^ j * 2 \<le> a * 5 ^ j * 2 ^ j" using assms(2) by (cases j) simp_all
  also have "\<dots> = a * 10 ^ j" by (simp add: power_mult_distrib [symmetric] mult.assoc)
  also have "\<dots> \<le> 10 ^ 16" by (rule assms(1))
  finally have "a * 5 ^ j * 2 \<le> 10 ^ 16" .
  then have "a * 5 ^ j < 2 ^ 53" by simp
  then have b: "\<bar>int (a * 5 ^ j)\<bar> < 2 ^ 53" by (simp only: abs_of_nat) (simp flip: of_nat_less_iff [where ?'a = int])
  have ne: "int (a * 5 ^ j) \<noteq> 0" using False by simp
  have eq: "(of_int (int (a * 5 ^ j)) :: rat) * pow2 (int j) = of_nat a * 10 ^ j"
  proof -
    have "(10::rat) ^ j = 5 ^ j * 2 ^ j" by (simp add: power_mult_distrib [symmetric])
    then show ?thesis by (simp add: pow2_def)
  qed
  have "round_double (of_int (int (a * 5 ^ j)) * pow2 (int j))
      = Num (of_int (int (a * 5 ^ j)) * pow2 (int j))"
    using j971 by (intro round_double_exact ne b) simp_all
  then show ?thesis by (simp only: eq)
qed

text \<open>
  On the integers that binary64 represents without gaps (below \<open>2^53\<close>), \<open>Number::toString\<close>
  is the decimal numeral: the shortest digit string that rounds to the integer is the
  integer without its trailing zeros, which the formatting puts back.
\<close>

lemma number_to_string_nat:
  assumes "n < 2 ^ 53"
  shows "number_to_string (Num (of_nat n)) = show_nat n"
proof (cases "n = 0")
  case True
  then show ?thesis by (simp add: show_nat_small digit_char_def)
next
  case False
  then have npos: "0 < n" by simp
  obtain s z where sz: "n = s * 10 ^ z" "0 < s" "\<not> 10 dvd s"
    using trailing_zeros [OF npos] by blast
  define d where "d = length (show_nat n)"
  define k0 where "k0 = length (show_nat s)"
  have dk: "d = k0 + z" by (simp add: d_def k0_def sz(1) show_nat_shift [OF sz(2)])
  have k0pos: "0 < k0" unfolding k0_def by (rule length_show_nat_pos)
  have upper: "n < 10 ^ d" unfolding d_def by (rule show_nat_upper)
  have "(10::nat) ^ (d - 1) \<le> n" unfolding d_def by (rule show_nat_lower [OF npos])
  also have "n < 10 ^ 16" using assms by simp
  finally have "d - 1 < 16" by (rule power_less_imp_less_exp [rotated]) simp
  then have d16: "d \<le> 16" by simp
  then have p16: "(10::nat) ^ d \<le> 10 ^ 16" by (intro power_increasing) simp_all
  have rdn: "round_double (of_nat n) = Num (of_nat n)" by (rule round_double_nat [OF assms])
  have de: "decimal_exponent (of_nat n) = int d" using npos by (simp add: decimal_exponent_def d_def)
  have none: "candidate (of_nat n) (int d) k = None" if k: "k \<in> set [1..<k0]" for k
  proof -
    define j where "j = d - k"
    have klt: "k < k0" using k by simp
    have kd: "k \<le> d" and zj: "z < j" and jpos: "0 < j" using klt dk unfolding j_def by linarith+
    have k1: "1 \<le> k" using k by simp
    let ?P = "(10::nat) ^ j"
    let ?lo = "n div ?P"
    have ndvd: "\<not> ?P dvd n" unfolding sz(1) by (rule not_dvd_shift [OF sz(3) zj])
    have "?lo * ?P + n mod ?P = n" by (rule div_mult_mod_eq)
    moreover have "n mod ?P \<noteq> 0" using ndvd by (simp add: dvd_eq_mod_eq_0)
    ultimately have lolt: "?lo * ?P < n" by linarith
    have hign: "n < (?lo + 1) * ?P" using dividend_less_div_times [of ?P n] by simp
    have "n < 10 ^ k * ?P" using upper kd by (simp add: j_def flip: power_add)
    then have "?lo < 10 ^ k" by (rule less_mult_imp_div_less)
    then have "(?lo + 1) * ?P \<le> 10 ^ k * ?P" by (intro mult_right_mono) simp_all
    also have "\<dots> = 10 ^ d" using kd by (simp add: j_def flip: power_add)
    finally have hi16: "(?lo + 1) * ?P \<le> 10 ^ 16" using p16 by simp
    have cast: "(of_nat (a * ?P) :: rat) = of_nat a * 10 ^ j" for a by simp
    have "round_double (of_nat (?lo * ?P)) = Num (of_nat (?lo * ?P))"
      using lolt assms by (intro round_double_nat) simp
    then have rlo: "round_double (of_nat ?lo * 10 ^ j) = Num (of_nat ?lo * 10 ^ j)"
      by (simp only: cast)
    have rhi: "round_double (of_nat (?lo + 1) * 10 ^ j) = Num (of_nat (?lo + 1) * 10 ^ j)"
      by (rule round_double_decimal [OF hi16 jpos])
    have "(of_nat (?lo * ?P) :: rat) < of_nat n" using lolt by (simp only: of_nat_less_iff)
    then have "(of_nat ?lo :: rat) * 10 ^ j < of_nat n" by (simp only: cast)
    then have nlo: "round_double (of_nat ?lo * 10 ^ j) \<noteq> Num (of_nat n)"
      unfolding rlo number.inject by (rule less_imp_neq)
    have "(of_nat n :: rat) < of_nat ((?lo + 1) * ?P)" using hign by (simp only: of_nat_less_iff)
    then have "(of_nat n :: rat) < of_nat (?lo + 1) * 10 ^ j" by (simp only: cast)
    then have nhi: "round_double (of_nat (?lo + 1) * 10 ^ j) \<noteq> Num (of_nat n)"
      unfolding rhi number.inject by (rule less_imp_neq [THEN not_sym])
    show ?thesis
    proof (rule candidate_None [where scale = "10 ^ j" and lo = "?lo"])
      show "(10::rat) ^ j = pow10 (int d - int k)" using pow10_diff [OF kd] by (simp add: j_def)
      show "?lo = nat \<lfloor>(of_nat n :: rat) / 10 ^ j\<rfloor>" by (simp only: floor_nat_div)
      show "round_double (of_nat ?lo * 10 ^ j) \<noteq> Num (of_nat n)" by (rule nlo)
      show "round_double (of_nat (?lo + 1) * 10 ^ j) \<noteq> Num (of_nat n)" by (rule nhi)
    qed
  qed
  have some: "candidate (of_nat n) (int d) k0 = Some (s, int d)"
  proof (rule candidate_exact [where scale = "10 ^ z"])
    show "(10::rat) ^ z = pow10 (int d - int k0)" using pow10_diff [of k0 d] dk by simp
    show "s = nat \<lfloor>(of_nat n :: rat) / 10 ^ z\<rfloor>" by (simp only: floor_nat_div) (simp add: sz(1))
    show "(of_nat s :: rat) * 10 ^ z = of_nat n" by (simp add: sz(1))
    show "round_double (of_nat n) = Num (of_nat n)" by (rule rdn)
    show "(0::rat) < 10 ^ z" by simp
  qed
  have "[1..<18] = [1..<k0] @ [k0..<18]"
    using upt_add_eq_append [of 1 k0 "18 - k0"] k0pos dk d16 by simp
  also have "[k0..<18] = k0 # [Suc k0..<18]" using dk d16 by (intro upt_conv_Cons) simp
  finally have split: "[1..<18] = [1..<k0] @ k0 # [Suc k0..<18]" .
  have sd: "shortest_digits (of_nat n) (int d) [1..<18] = (s, int d)"
    unfolding split using none some by (intro shortest_digits_skip) simp_all
  have "format_digits (show_nat s) (int d) = show_nat s @ replicate z CHR ''0''"
    using dk d16 by (simp add: format_digits_def k0_def [symmetric])
  also have "\<dots> = show_nat n" by (simp add: sz(1) show_nat_shift [OF sz(2)])
  finally have "positive_to_string (of_nat n) = show_nat n"
    unfolding positive_to_string_def de sd by simp
  then show ?thesis using npos by simp
qed

lemma number_to_string_neg_nat:
  assumes "0 < n" and "n < 2 ^ 53"
  shows "number_to_string (Num (- of_nat n)) = CHR ''-'' # show_nat n"
proof -
  have "positive_to_string (of_nat n) = show_nat n"
    using number_to_string_nat [OF assms(2)] assms(1) by simp
  then show ?thesis using assms(1) by simp
qed

lemma three_halves: "number_to_string (Num (3 / 2)) = ''1.5''"
  by (simp add: positive_to_string_def decimal_exponent_def show_nat.simps digit_char_def
      upt_conv_Cons candidate_def pow10_def format_digits_def eval_double floor_rat_numeral)

lemma product_printed:
  "number_to_string (Num (8632884264959999 / 4294967296)) = ''2009999.9999999998''"
  by (simp add: positive_to_string_def decimal_exponent_def show_nat.simps digit_char_def
      upt_conv_Cons candidate_def pow10_def format_digits_def eval_double floor_rat_numeral)

section \<open>Requests and responses\<close>

lemma play_amount_field:
  "spec_resolve (play_sessionID po) (usp_get q ''sessionID'') = Some sid
   \<Longrightarrow> spec_resolve (play_rgsUrl po) (usp_get q ''rgs_url'') = Some host
   \<Longrightarrow> map (request_field ''amount'') (requests (play f q po))
       = [Some (JNum (js_mul (play_amount po) API_AMOUNT_MULTIPLIER))]"
  by (simp add: play_resolved post_requests request_field_def)

lemma post_non_200:
  assumes "f \<lparr>http_method = POST, endpoint = ''https://'' @ post_rgsUrl options @ post_url options,
             variables = post_variables options\<rparr> = Inr r"
    and "status r \<noteq> 200"
  shows "post f options =
     (case get_message (case json r of Inl e \<Rightarrow> JObject [] | Inr v \<Rightarrow> v) of
        Inl e \<Rightarrow> Inl e
      | Inr message \<Rightarrow>
          if js_truthy message then
            (case js_to_string message of Inl e \<Rightarrow> Inl e | Inr msg \<Rightarrow> Inl (Error msg))
          else Inl (Error (''RGS API error: '' @ show_nat (status r) @ '' '' @ statusText r)),
      [\<lparr>http_method = POST, endpoint = ''https://'' @ post_rgsUrl options @ post_url options,
        variables = post_variables options\<rparr>])"
  using assms by (simp add: post_def Let_def split: sum.splits)

lemma get_non_200:
  assumes "f \<lparr>http_method = GET, endpoint = ''https://'' @ get_rgsUrl options @ get_url options,
             variables = None\<rparr> = Inr r"
    and "status r \<noteq> 200"
  shows "get f options =
     (case get_message (case json r of Inl e \<Rightarrow> JObject [] | Inr v \<Rightarrow> v) of
        Inl e \<Rightarrow> Inl e
      | Inr message \<Rightarrow>
          if js_truthy message then
            (case js_to_string message of Inl e \<Rightarrow> Inl e | Inr msg \<Rightarrow> Inl (Error msg))
          else Inl (Error (''RGS API error: '' @ show_nat (status r) @ '' '' @ statusText r)),
      [\<lparr>http_method = GET, endpoint = ''https://'' @ get_rgsUrl options @ get_url options,
        variables = None\<rparr>])"
  using assms by (simp add: get_def Let_def split: sum.splits)

section \<open>The claims\<close>

text \<open>
  C1. For every operation and every resolved field (session identifier, server host,
  language, currency): a non-empty explicit option is the resolved value; with the
  explicit option undefined or empty, the ambient URL value is the resolved value when
  it is present (a non-empty string); with neither, the resolution fails for the session
  identifier and the server host, and gives \<open>en\<close> for the language and \<open>USD\<close> for the
  currency. Each of the seven operations computes exactly what the resolution order of
  the specification prescribes, on every input. In particular explicit \<open>A\<close> with
  ambient \<open>B\<close> sends \<open>A\<close>, and no explicit value with ambient \<open>B\<close> sends \<open>B\<close>.
\<close>

theorem resolution_order:
  "authenticate f q ao =
     (case spec_resolve (Option.bind ao auth_sessionID) (usp_get q ''sessionID'') of
        None \<Rightarrow> throw sessionID_required
      | Some sid \<Rightarrow>
          (case spec_resolve (Option.bind ao auth_rgsUrl) (usp_get q ''rgs_url'') of
             None \<Rightarrow> throw rgsUrl_required
           | Some host \<Rightarrow>
               post f
                 \<lparr>post_url = ''/wallet/authenticate'', post_rgsUrl = host,
                  post_variables =
                    Some (JObject
                      [(''sessionID'', JString sid),
                       (''language'',
                        JString (spec_resolve_default (Option.bind ao auth_language)
                                   (usp_get q ''lang'') ''en''))])\<rparr>))
   \<and> play f q po =
     (case spec_resolve (play_sessionID po) (usp_get q ''sessionID'') of
        None \<Rightarrow> throw sessionID_required
      | Some sid \<Rightarrow>
          (case spec_resolve (play_rgsUrl po) (usp_get q ''rgs_url'') of
             None \<Rightarrow> throw rgsUrl_required
           | Some host \<Rightarrow>
               post f
                 \<lparr>post_url = ''/wallet/play'', post_rgsUrl = host,
                  post_variables =
                    Some (JObject
                      [(''mode'', JString (play_mode po)),
                       (''currency'',
                        JString (spec_resolve_default (play_currency po)
                                   (usp_get q ''currency'') ''USD'')),
                       (''sessionID'', JString sid),
                       (''amount'', JNum (js_mul (play_amount po) API_AMOUNT_MULTIPLIER))])\<rparr>))
   \<and> endRound f q ro =
     (case spec_resolve (Option.bind ro endRound_sessionID) (usp_get q ''sessionID'') of
        None \<Rightarrow> throw sessionID_required
      | Some sid \<Rightarrow>
          (case spec_resolve (Option.bind ro endRound_rgsUrl) (usp_get q ''rgs_url'') of
             None \<Rightarrow> throw rgsUrl_required
           | Some host \<Rightarrow>
               post f
                 \<lparr>post_url = ''/wallet/end-round'', post_rgsUrl = host,
                  post_variables = Some (JObject [(''sessionID'', JString sid)])\<rparr>))
   \<and> endEvent f q eo =
     (case spec_resolve (endEvent_sessionID eo) (usp_get q ''sessionID'') of
        None \<Rightarrow> throw sessionID_required
      | Some sid \<Rightarrow>
          (case spec_resolve (endEvent_rgsUrl eo) (usp_get q ''rgs_url'') of
             None \<Rightarrow> throw rgsUrl_required
           | Some host \<Rightarrow>
               post f
                 \<lparr>post_url = ''/bet/event'', post_rgsUrl = host,
                  post_variables =
                    Some (JObject
                      [(''sessionID'', JString sid),
                       (''event'', JString (number_to_string (endEvent_eventIndex eo)))])\<rparr>))
   \<and> forceResult f q fo =
     (case spec_resolve (forceResult_rgsUrl fo) (usp_get q ''rgs_url'') of
        None \<Rightarrow> throw rgsUrl_required
      | Some host \<Rightarrow>
          post f
            \<lparr>post_url = ''/game/search'', post_rgsUrl = host,
             post_variables =
               Some (JObject [(''mode'', JString (forceResult_mode fo)),
                              (''search'', forceResult_search fo)])\<rparr>)
   \<and> getBalance f q bo =
     (case spec_resolve (Option.bind bo getBalance_sessionID) (usp_get q ''sessionID'') of
        None \<Rightarrow> throw sessionID_required
      | Some sid \<Rightarrow>
          (case spec_resolve (Option.bind bo getBalance_rgsUrl) (usp_get q ''rgs_url'') of
             None \<Rightarrow> throw rgsUrl_required
           | Some host \<Rightarrow>
               post f
                 \<lparr>post_url = ''/wallet/balance'', post_rgsUrl = host,
                  post_variables = Some (JObject [(''sessionID'', JString sid)])\<rparr>))
   \<and> replay f q rp =
     (case spec_resolve (replay_rgsUrl rp) (usp_get q ''rgs_url'') of
        None \<Rightarrow> throw rgsUrl_required
      | Some host \<Rightarrow>
          get f
            \<lparr>get_url = ''/bet/replay/'' @ replay_game rp @ ''/'' @ replay_version rp
                         @ ''/'' @ replay_mode rp @ ''/'' @ replay_event rp,
             get_rgsUrl = host\<rparr>)
   \<and> spec_resolve (Some ''A'') (Some ''B'') = Some ''A''
   \<and> spec_resolve None (Some ''B'') = Some ''B''
   \<and> spec_resolve None None = None
   \<and> spec_resolve_default None None ''en'' = ''en''
   \<and> spec_resolve_default None None ''USD'' = ''USD''
   \<and> map (request_field ''sessionID'')
         (requests (authenticate f [(''sessionID'', ''B''), (''rgs_url'', ''h'')]
            (Some \<lparr>auth_sessionID = Some ''A'', auth_rgsUrl = None, auth_language = None\<rparr>)))
       = [Some (JString ''A'')]
   \<and> map (request_field ''sessionID'')
         (requests (authenticate f [(''sessionID'', ''B''), (''rgs_url'', ''h'')]
            (Some \<lparr>auth_sessionID = None, auth_rgsUrl = None, auth_language = None\<rparr>)))
       = [Some (JString ''B'')]"
proof -
  have ex: "spec_resolve (Some ''A'') (Some ''B'') = Some ''A''"
    "spec_resolve None (Some ''B'') = Some ''B''"
    "spec_resolve None None = None"
    "spec_resolve_default None None ''en'' = ''en''"
    "spec_resolve_default None None ''USD'' = ''USD''"
    by (simp_all add: spec_resolve_def spec_resolve_default_def present_def)
  have a: "map (request_field ''sessionID'')
         (requests (authenticate f [(''sessionID'', ''B''), (''rgs_url'', ''h'')]
            (Some \<lparr>auth_sessionID = Some ''A'', auth_rgsUrl = None, auth_language = None\<rparr>)))
       = [Some (JString ''A'')]"
    by (simp add: authenticate_resolved usp_get_def spec_resolve_def present_def post_requests
        request_field_def)
  have b: "map (request_field ''sessionID'')
         (requests (authenticate f [(''sessionID'', ''B''), (''rgs_url'', ''h'')]
            (Some \<lparr>auth_sessionID = None, auth_rgsUrl = None, auth_language = None\<rparr>)))
       = [Some (JString ''B'')]"
    by (simp add: authenticate_resolved usp_get_def spec_resolve_def present_def post_requests
        request_field_def)
  show ?thesis
    by (intro conjI authenticate_resolved play_resolved endRound_resolved endEvent_resolved
        forceResult_resolved getBalance_resolved replay_resolved ex a b)
qed

text \<open>
  C2. When a parameter an operation requires resolves to nothing from the explicit options
  and from the URL context, the operation raises the missing-parameter error and issues no
  request: the outcome is the error with the empty list of requests. The session
  identifier is checked first, so with both missing the error is the one of the session
  identifier. \<open>forceResult\<close> and \<open>replay\<close> require the server host only: with a host they
  issue their request whatever the session identifier is, also when there is none.
\<close>

theorem missing_required_parameter:
  "(\<not> present (Option.bind ao auth_sessionID) \<and> \<not> present (usp_get q ''sessionID'')
      \<longrightarrow> authenticate f q ao = (Inl sessionID_required, []))
   \<and> ((present (Option.bind ao auth_sessionID) \<or> present (usp_get q ''sessionID''))
        \<and> \<not> present (Option.bind ao auth_rgsUrl) \<and> \<not> present (usp_get q ''rgs_url'')
      \<longrightarrow> authenticate f q ao = (Inl rgsUrl_required, []))
   \<and> (\<not> present (play_sessionID po) \<and> \<not> present (usp_get q ''sessionID'')
      \<longrightarrow> play f q po = (Inl sessionID_required, []))
   \<and> ((present (play_sessionID po) \<or> present (usp_get q ''sessionID''))
        \<and> \<not> present (play_rgsUrl po) \<and> \<not> present (usp_get q ''rgs_url'')
      \<longrightarrow> play f q po = (Inl rgsUrl_required, []))
   \<and> (\<not> present (Option.bind ro endRound_sessionID) \<and> \<not> present (usp_get q ''sessionID'')
      \<longrightarrow> endRound f q ro = (Inl sessionID_required, []))
   \<and> ((present (Option.bind ro endRound_sessionID) \<or> present (usp_get q ''sessionID''))
        \<and> \<not> present (Option.bind ro endRound_rgsUrl) \<and> \<not> present (usp_get q ''rgs_url'')
      \<longrightarrow> endRound f q ro = (Inl rgsUrl_required, []))
   \<and> (\<not> present (endEvent_sessionID eo) \<and> \<not> present (usp_get q ''sessionID'')
      \<longrightarrow> endEvent f q eo = (Inl sessionID_required, []))
   \<and> ((present (endEvent_sessionID eo) \<or> present (usp_get q ''sessionID''))
        \<and> \<not> present (endEvent_rgsUrl eo) \<and> \<not> present (usp_get q ''rgs_url'')
      \<longrightarrow> endEvent f q eo = (Inl rgsUrl_required, []))
   \<and> (\<not> present (Option.bind bo getBalance_sessionID) \<and> \<not> present (usp_get q ''sessionID'')
      \<longrightarrow> getBalance f q bo = (Inl sessionID_required, []))
   \<and> ((present (Option.bind bo getBalance_sessionID) \<or> present (usp_get q ''sessionID''))
        \<and> \<not> present (Option.bind bo getBalance_rgsUrl) \<and> \<not> present (usp_get q ''rgs_url'')
      \<longrightarrow> getBalance f q bo = (Inl rgsUrl_required, []))
   \<and> (\<not> present (forceResult_rgsUrl fo) \<and> \<not> present (usp_get q ''rgs_url'')
      \<longrightarrow> forceResult f q fo = (Inl rgsUrl_required, []))
   \<and> (present (forceResult_rgsUrl fo) \<or> present (usp_get q ''rgs_url'')
      \<longrightarrow> length (requests (forceResult f q fo)) = 1)
   \<and> (\<not> present (replay_rgsUrl rp) \<and> \<not> present (usp_get q ''rgs_url'')
      \<longrightarrow> replay f q rp = (Inl rgsUrl_required, []))
   \<and> (present (replay_rgsUrl rp) \<or> present (usp_get q ''rgs_url'')
      \<longrightarrow> length (requests (replay f q rp)) = 1)"
proof -
  have two: "\<not> present a \<and> \<not> present b \<longrightarrow>
      (case spec_resolve a b of None \<Rightarrow> throw e | Some v \<Rightarrow> g v) = (Inl e, [])"
    for a b e and g :: "string \<Rightarrow> outcome"
    by (simp add: spec_resolve_None throw_def)
  have three: "(present a \<or> present b) \<and> \<not> present c \<and> \<not> present d \<longrightarrow>
      (case spec_resolve a b of None \<Rightarrow> throw e1
       | Some v \<Rightarrow> (case spec_resolve c d of None \<Rightarrow> throw e2 | Some w \<Rightarrow> g v w)) = (Inl e2, [])"
    for a b c d e1 e2 and g :: "string \<Rightarrow> string \<Rightarrow> outcome"
    using spec_resolve_Some [of a b] by (auto simp add: spec_resolve_None throw_def)
  have one_post: "present a \<or> present b \<longrightarrow>
      length (requests (case spec_resolve a b of None \<Rightarrow> throw e | Some v \<Rightarrow> post f (g v))) = 1"
    for a b e g
    using spec_resolve_Some [of a b] by (auto simp add: post_requests)
  have one_get: "present a \<or> present b \<longrightarrow>
      length (requests (case spec_resolve a b of None \<Rightarrow> throw e | Some v \<Rightarrow> get f (g v))) = 1"
    for a b e g
    using spec_resolve_Some [of a b] by (auto simp add: get_requests)
  show ?thesis
    unfolding authenticate_resolved play_resolved endRound_resolved endEvent_resolved
      forceResult_resolved getBalance_resolved replay_resolved
    by (intro conjI two three one_post one_get)
qed

theorem missing_required_parameter_witness:
  "authenticate (mock_fetcher \<lparr>status = 200, statusText = ''OK'', json = Inr (JObject [])\<rparr>) [] None
     = (Inl sessionID_required, [])
   \<and> play (mock_fetcher \<lparr>status = 200, statusText = ''OK'', json = Inr (JObject [])\<rparr>) []
       \<lparr>play_amount = Num 1, play_mode = ''base'', play_currency = None,
        play_sessionID = None, play_rgsUrl = None\<rparr>
     = (Inl sessionID_required, [])
   \<and> endRound (mock_fetcher \<lparr>status = 200, statusText = ''OK'', json = Inr (JObject [])\<rparr>) [] None
     = (Inl sessionID_required, [])
   \<and> endEvent (mock_fetcher \<lparr>status = 200, statusText = ''OK'', json = Inr (JObject [])\<rparr>) []
       \<lparr>endEvent_eventIndex = Num 1, endEvent_sessionID = None, endEvent_rgsUrl = None\<rparr>
     = (Inl sessionID_required, [])
   \<and> getBalance (mock_fetcher \<lparr>status = 200, statusText = ''OK'', json = Inr (JObject [])\<rparr>) [] None
     = (Inl sessionID_required, [])
   \<and> forceResult (mock_fetcher \<lparr>status = 200, statusText = ''OK'', json = Inr (JObject [])\<rparr>) []
       \<lparr>forceResult_mode = ''base'', forceResult_search = JObject [], forceResult_rgsUrl = None\<rparr>
     = (Inl rgsUrl_required, [])
   \<and> replay (mock_fetcher \<lparr>status = 200, statusText = ''OK'', json = Inr (JObject [])\<rparr>) []
       \<lparr>replay_game = ''g'', replay_version = ''1'', replay_mode = ''base'', replay_event = ''7'',
        replay_rgsUrl = None\<rparr>
     = (Inl rgsUrl_required, [])
   \<and> authenticate (mock_fetcher \<lparr>status = 200, statusText = ''OK'', json = Inr (JObject [])\<rparr>)
       [(''sessionID'', ''abc'')] None
     = (Inl rgsUrl_required, [])
   \<and> play (mock_fetcher \<lparr>status = 200, statusText = ''OK'', json = Inr (JObject [])\<rparr>)
       [(''sessionID'', ''abc'')]
       \<lparr>play_amount = Num 1, play_mode = ''base'', play_currency = None,
        play_sessionID = None, play_rgsUrl = Some ''''\<rparr>
     = (Inl rgsUrl_required, [])
   \<and> endRound (mock_fetcher \<lparr>status = 200, statusText = ''OK'', json = Inr (JObject [])\<rparr>)
       [(''sessionID'', ''abc'')] None
     = (Inl rgsUrl_required, [])
   \<and> endEvent (mock_fetcher \<lparr>status = 200, statusText = ''OK'', json = Inr (JObject [])\<rparr>)
       [(''sessionID'', ''abc'')]
       \<lparr>endEvent_eventIndex = Num 1, endEvent_sessionID = None, endEvent_rgsUrl = None\<rparr>
     = (Inl rgsUrl_required, [])
   \<and> getBalance (mock_fetcher \<lparr>status = 200, statusText = ''OK'', json = Inr (JObject [])\<rparr>)
       [(''sessionID'', ''abc'')] None
     = (Inl rgsUrl_required, [])
   \<and> length (requests
        (forceResult (mock_fetcher \<lparr>status = 200, statusText = ''OK'', json = Inr (JObject [])\<rparr>)
          [(''rgs_url'', ''h'')]
          \<lparr>forceResult_mode = ''base'', forceResult_search = JObject [],
           forceResult_rgsUrl = None\<rparr>)) = 1
   \<and> length (requests
        (replay (mock_fetcher \<lparr>status = 200, statusText = ''OK'', json = Inr (JObject [])\<rparr>)
          [(''rgs_url'', ''h'')]
          \<lparr>replay_game = ''g'', replay_version = ''1'', replay_mode = ''base'',
           replay_event = ''7'', replay_rgsUrl = None\<rparr>)) = 1"
  using
    missing_required_parameter [where q = "[]" and ao = None and ro = None and bo = None
      and f = "mock_fetcher \<lparr>status = 200, statusText = ''OK'', json = Inr (JObject [])\<rparr>"
      and po = "\<lparr>play_amount = Num 1, play_mode = ''base'', play_currency = None,
                 play_sessionID = None, play_rgsUrl = None\<rparr>"
      and eo = "\<lparr>endEvent_eventIndex = Num 1, endEvent_sessionID = None, endEvent_rgsUrl = None\<rparr>"
      and fo = "\<lparr>forceResult_mode = ''base'', forceResult_search = JObject [],
                 forceResult_rgsUrl = None\<rparr>"
      and rp = "\<lparr>replay_game = ''g'', replay_version = ''1'', replay_mode = ''base'',
                 replay_event = ''7'', replay_rgsUrl = None\<rparr>"]
    missing_required_parameter [where q = "[(''sessionID'', ''abc'')]" and ao = None
      and ro = None and bo = None
      and f = "mock_fetcher \<lparr>status = 200, statusText = ''OK'', json = Inr (JObject [])\<rparr>"
      and po = "\<lparr>play_amount = Num 1, play_mode = ''base'', play_currency = None,
                 play_sessionID = None, play_rgsUrl = Some ''''\<rparr>"
      and eo = "\<lparr>endEvent_eventIndex = Num 1, endEvent_sessionID = None, endEvent_rgsUrl = None\<rparr>"]
    missing_required_parameter [where q = "[(''rgs_url'', ''h'')]"
      and f = "mock_fetcher \<lparr>status = 200, statusText = ''OK'', json = Inr (JObject [])\<rparr>"
      and fo = "\<lparr>forceResult_mode = ''base'', forceResult_search = JObject [],
                 forceResult_rgsUrl = None\<rparr>"
      and rp = "\<lparr>replay_game = ''g'', replay_version = ''1'', replay_mode = ''base'',
                 replay_event = ''7'', replay_rgsUrl = None\<rparr>"]
  by (simp add: present_def usp_get_def)

text \<open>
  C3, as stated: for every non-negative finite amount the amount field sent by \<open>play\<close> is
  \<open>round(amount * MULTIPLIER)\<close>, a non-negative integer. The code multiplies and does not
  round: for the amount 2.01 (the literal, which is the double nearest to 2.01) the field
  is the double that prints as \<open>2009999.9999999998\<close>, not the integer 2010000.
\<close>

theorem play_amount_not_rounded:
  "round_double (201 / 100) = Num (1131529406376837 / 562949953421312)
   \<and> map (request_field ''amount'')
     (requests (play (mock_fetcher \<lparr>status = 200, statusText = ''OK'', json = Inr (JObject [])\<rparr>) []
        \<lparr>play_amount = Num (1131529406376837 / 562949953421312), play_mode = ''base'',
         play_currency = None, play_sessionID = Some ''s1'', play_rgsUrl = Some ''h''\<rparr>))
     = [Some (JNum (Num (8632884264959999 / 4294967296)))]
   \<and> math_round (js_mul (Num (1131529406376837 / 562949953421312)) API_AMOUNT_MULTIPLIER)
     = Num 2010000
   \<and> Num (8632884264959999 / 4294967296) \<noteq> Num 2010000
   \<and> \<not> is_integer (Num (8632884264959999 / 4294967296))
   \<and> number_to_string (Num (8632884264959999 / 4294967296)) = ''2009999.9999999998''"
  by (simp add: two_point_01 play_amount_field spec_resolve_def present_def
      mul_two_point_01 floor_rat_numeral product_printed
      del: number_to_string.simps)

text \<open>
  C3, amended: when the session identifier and the server host resolve, the amount field
  sent by \<open>play\<close> is the binary64 product of the amount and the multiplier 1,000,000, with
  no rounding to an integer. For a non-negative finite amount it is non-negative (finite,
  or \<open>+Infinity\<close> on overflow). When the exact product is an integer below \<open>2^53\<close>, the
  field is that integer, which is \<open>round(amount * MULTIPLIER)\<close>.
\<close>

theorem play_amount_conversion:
  "(spec_resolve (play_sessionID po) (usp_get q ''sessionID'') = Some sid
      \<and> spec_resolve (play_rgsUrl po) (usp_get q ''rgs_url'') = Some host
      \<longrightarrow> map (request_field ''amount'') (requests (play f q po))
          = [Some (JNum (js_mul (play_amount po) API_AMOUNT_MULTIPLIER))])
   \<and> API_AMOUNT_MULTIPLIER = Num 1000000
   \<and> (0 \<le> a \<longrightarrow> non_negative (js_mul (Num a) API_AMOUNT_MULTIPLIER))
   \<and> (a * 1000000 = of_int m \<and> \<bar>m\<bar> < 2 ^ 53
      \<longrightarrow> js_mul (Num a) API_AMOUNT_MULTIPLIER = Num (of_int m)
          \<and> math_round (Num (a * 1000000)) = Num (of_int m)
          \<and> is_integer (js_mul (Num a) API_AMOUNT_MULTIPLIER))"
proof -
  have nn: "0 \<le> a \<longrightarrow> non_negative (js_mul (Num a) API_AMOUNT_MULTIPLIER)"
    by (simp add: API_AMOUNT_MULTIPLIER_def round_double_nonneg)
  have ex: "a * 1000000 = of_int m \<and> \<bar>m\<bar> < 2 ^ 53
      \<longrightarrow> js_mul (Num a) API_AMOUNT_MULTIPLIER = Num (of_int m)
          \<and> math_round (Num (a * 1000000)) = Num (of_int m)
          \<and> is_integer (js_mul (Num a) API_AMOUNT_MULTIPLIER)"
    using round_double_int [of m] math_round_int [of m]
    by (simp add: API_AMOUNT_MULTIPLIER_def del: math_round.simps)
  show ?thesis
    using nn ex by (simp add: play_amount_field) (simp add: API_AMOUNT_MULTIPLIER_def)
qed

theorem play_amount_conversion_witness:
  "map (request_field ''amount'')
     (requests (play (mock_fetcher \<lparr>status = 200, statusText = ''OK'', json = Inr (JObject [])\<rparr>)
        [(''sessionID'', ''s1''), (''rgs_url'', ''h'')]
        \<lparr>play_amount = Num (1 / 128), play_mode = ''base'', play_currency = None,
         play_sessionID = None, play_rgsUrl = None\<rparr>))
     = [Some (JNum (js_mul (Num (1 / 128)) API_AMOUNT_MULTIPLIER))]
   \<and> non_negative (js_mul (Num (1 / 128)) API_AMOUNT_MULTIPLIER)
   \<and> js_mul (Num (21 / 2)) API_AMOUNT_MULTIPLIER = Num 10500000
   \<and> math_round (Num 10500000) = Num 10500000"
  using
    play_amount_conversion [where q = "[(''sessionID'', ''s1''), (''rgs_url'', ''h'')]"
      and sid = "''s1''" and host = "''h''"
      and f = "mock_fetcher \<lparr>status = 200, statusText = ''OK'', json = Inr (JObject [])\<rparr>"
      and po = "\<lparr>play_amount = Num (1 / 128), play_mode = ''base'', play_currency = None,
                 play_sessionID = None, play_rgsUrl = None\<rparr>"
      and a = "1 / 128" and m = 0]
    play_amount_conversion [where a = "21 / 2" and m = 10500000]
  by (simp add: spec_resolve_def present_def usp_get_def floor_rat_half)

text \<open>
  C4. The conversion performed by \<open>play\<close> is the binary64 product with the multiplier, and
  it is exact on the amounts 1.00, 10.50 and 0: the fields sent are 1000000, 10500000 and
  0. Dividing the converted amount by the multiplier gives the amount back: for every
  decimal \<open>k/100\<close> (at most two decimal digits, of either sign), passed as the nearest
  double, whose exact product with the multiplier, the integer \<open>k * 10000\<close>, is below
  \<open>2^53\<close> in magnitude, whether or not the computed product is that integer (for 2.01
  it is not); and for every double whose exact product with the multiplier is a double.
\<close>

theorem amount_conversion_round_trip:
  "(spec_resolve (play_sessionID po) (usp_get q ''sessionID'') = Some sid
      \<and> spec_resolve (play_rgsUrl po) (usp_get q ''rgs_url'') = Some host
      \<longrightarrow> map (request_field ''amount'') (requests (play f q po))
            = [Some (JNum (js_mul (play_amount po) API_AMOUNT_MULTIPLIER))]
          \<and> map (request_field ''amount'') (requests (play f q (po\<lparr>play_amount := Num 1\<rparr>)))
            = [Some (JNum (Num 1000000))]
          \<and> map (request_field ''amount'') (requests (play f q (po\<lparr>play_amount := Num (21 / 2)\<rparr>)))
            = [Some (JNum (Num 10500000))]
          \<and> map (request_field ''amount'') (requests (play f q (po\<lparr>play_amount := Num 0\<rparr>)))
            = [Some (JNum (Num 0))])
   \<and> js_mul (Num 1) API_AMOUNT_MULTIPLIER = Num 1000000
   \<and> js_mul (Num (21 / 2)) API_AMOUNT_MULTIPLIER = Num 10500000
   \<and> js_mul (Num 0) API_AMOUNT_MULTIPLIER = Num 0
   \<and> (\<bar>k\<bar> * 10000 < 2 ^ 53
      \<longrightarrow> js_div (js_mul (round_double (of_int k / 100)) API_AMOUNT_MULTIPLIER)
            API_AMOUNT_MULTIPLIER
          = round_double (of_int k / 100))
   \<and> (round_double x = Num x \<and> round_double (x * 1000000) = Num (x * 1000000)
      \<longrightarrow> js_div (js_mul (Num x) API_AMOUNT_MULTIPLIER) API_AMOUNT_MULTIPLIER = Num x)"
proof -
  have a: "\<bar>k\<bar> * 10000 < 2 ^ 53
      \<longrightarrow> js_div (js_mul (round_double (of_int k / 100)) API_AMOUNT_MULTIPLIER)
            API_AMOUNT_MULTIPLIER
          = round_double (of_int k / 100)"
    using two_decimals_round_trip_int [of k] by simp
  have b: "round_double x = Num x \<and> round_double (x * 1000000) = Num (x * 1000000)
      \<longrightarrow> js_div (js_mul (Num x) API_AMOUNT_MULTIPLIER) API_AMOUNT_MULTIPLIER = Num x"
    by (simp add: API_AMOUNT_MULTIPLIER_def)
  show ?thesis
    using a b by (simp add: play_amount_field mul_one mul_ten_fifty mul_zero)
qed

theorem amount_conversion_round_trip_witness:
  "map (request_field ''amount'')
     (requests (play (mock_fetcher \<lparr>status = 200, statusText = ''OK'', json = Inr (JObject [])\<rparr>)
        [(''sessionID'', ''s1''), (''rgs_url'', ''h'')]
        \<lparr>play_amount = Num (21 / 2), play_mode = ''base'', play_currency = None,
         play_sessionID = None, play_rgsUrl = None\<rparr>))
     = [Some (JNum (Num 10500000))]
   \<and> round_double (201 / 100) = Num (1131529406376837 / 562949953421312)
   \<and> js_mul (Num (1131529406376837 / 562949953421312)) API_AMOUNT_MULTIPLIER
       = Num (8632884264959999 / 4294967296)
   \<and> js_div (Num (8632884264959999 / 4294967296)) API_AMOUNT_MULTIPLIER
       = Num (1131529406376837 / 562949953421312)
   \<and> js_div (js_mul (Num (21 / 2)) API_AMOUNT_MULTIPLIER) API_AMOUNT_MULTIPLIER = Num (21 / 2)"
proof -
  have r1: "round_double (21 / 2) = Num (21 / 2)"
    using round_double_exact [of 21 "- 1"] by (simp add: pow2_def)
  have r2: "round_double 10500000 = Num 10500000"
    using round_double_int [of 10500000] by simp
  show ?thesis
    using
      amount_conversion_round_trip [where q = "[(''sessionID'', ''s1''), (''rgs_url'', ''h'')]"
        and sid = "''s1''" and host = "''h''"
        and f = "mock_fetcher \<lparr>status = 200, statusText = ''OK'', json = Inr (JObject [])\<rparr>"
        and po = "\<lparr>play_amount = Num 7, play_mode = ''base'', play_currency = None,
                   play_sessionID = None, play_rgsUrl = None\<rparr>"
        and k = 201 and x = "21 / 2"]
    by (auto simp add: spec_resolve_def present_def usp_get_def r1 r2 two_point_01
        mul_two_point_01)
qed

text \<open>
  C5, as stated: on a status other than 200, a JSON body that contains a message field
  makes the raised error's message that field's value. A body whose message field is the
  empty string does not: the error carries the generic status message.
\<close>

theorem empty_message_counterexample:
  "result (getBalance
      (mock_fetcher \<lparr>status = 401, statusText = ''Unauthorized'',
                     json = Inr (JObject [(''message'', JString '''')])\<rparr>)
      []
      (Some \<lparr>getBalance_sessionID = Some ''s1'', getBalance_rgsUrl = Some ''h''\<rparr>))
     = Inl (Error ''RGS API error: 401 Unauthorized'')
   \<and> map_of [(''message'', JString '''')] ''message'' = Some (JString '''')
   \<and> Error ''RGS API error: 401 Unauthorized'' \<noteq> Error ''''"
  by (simp add: getBalance_resolved spec_resolve_def present_def post_def mock_fetcher_def
      result_def Let_def show_nat.simps digit_char_def)

text \<open>
  C5, amended: every operation either raises a missing-parameter error or is one call of
  \<open>post\<close> or \<open>get\<close>. When the response's status is not 200, that call issues its one
  request and raises one error. If the body is not JSON, the error's message is
  \<open>RGS API error: \<close> followed by the status code in decimal, a space and the status text.
  If the body is a JSON object whose message field is a non-empty string, the error's
  message is that string. If the message field is another truthy value, the error's
  message is the string conversion of that value; when the conversion itself throws (an
  object with an own property \<open>toString\<close>, or an array that holds one), the error raised
  is the conversion's \<open>TypeError\<close>. If the body is a JSON object without a message field,
  or with a falsy one (the empty string, \<open>null\<close>, \<open>false\<close>, 0), the error's message is the
  generic status message.
\<close>

theorem non_200_raises:
  "(f \<lparr>http_method = POST, endpoint = ''https://'' @ post_rgsUrl po @ post_url po,
       variables = post_variables po\<rparr> = Inr r \<and> status r \<noteq> 200
      \<longrightarrow> (\<exists>e. result (post f po) = Inl e) \<and> length (requests (post f po)) = 1
          \<and> (\<forall>e. json r = Inl e \<longrightarrow>
                result (post f po)
                = Inl (Error (''RGS API error: '' @ show_nat (status r) @ '' '' @ statusText r)))
          \<and> (\<forall>kvs m. json r = Inr (JObject kvs) \<and> map_of kvs ''message'' = Some (JString m)
                  \<and> m \<noteq> [] \<longrightarrow>
                result (post f po) = Inl (Error m))
          \<and> (\<forall>kvs v. json r = Inr (JObject kvs) \<and> map_of kvs ''message'' = Some v
                  \<and> js_truthy v \<longrightarrow>
                result (post f po)
                = (case js_to_string v of Inl e \<Rightarrow> Inl e | Inr msg \<Rightarrow> Inl (Error msg)))
          \<and> (\<forall>kvs. json r = Inr (JObject kvs)
                  \<and> (map_of kvs ''message'' = None
                      \<or> (\<exists>v. map_of kvs ''message'' = Some v \<and> \<not> js_truthy v)) \<longrightarrow>
                result (post f po)
                = Inl (Error (''RGS API error: '' @ show_nat (status r) @ '' '' @ statusText r))))
   \<and> (f \<lparr>http_method = GET, endpoint = ''https://'' @ get_rgsUrl go @ get_url go,
         variables = None\<rparr> = Inr r \<and> status r \<noteq> 200
      \<longrightarrow> (\<exists>e. result (get f go) = Inl e) \<and> length (requests (get f go)) = 1
          \<and> (\<forall>e. json r = Inl e \<longrightarrow>
                result (get f go)
                = Inl (Error (''RGS API error: '' @ show_nat (status r) @ '' '' @ statusText r)))
          \<and> (\<forall>kvs m. json r = Inr (JObject kvs) \<and> map_of kvs ''message'' = Some (JString m)
                  \<and> m \<noteq> [] \<longrightarrow>
                result (get f go) = Inl (Error m))
          \<and> (\<forall>kvs v. json r = Inr (JObject kvs) \<and> map_of kvs ''message'' = Some v
                  \<and> js_truthy v \<longrightarrow>
                result (get f go)
                = (case js_to_string v of Inl e \<Rightarrow> Inl e | Inr msg \<Rightarrow> Inl (Error msg)))
          \<and> (\<forall>kvs. json r = Inr (JObject kvs)
                  \<and> (map_of kvs ''message'' = None
                      \<or> (\<exists>v. map_of kvs ''message'' = Some v \<and> \<not> js_truthy v)) \<longrightarrow>
                result (get f go)
                = Inl (Error (''RGS API error: '' @ show_nat (status r) @ '' '' @ statusText r))))
   \<and> ((\<exists>e. authenticate f q ao = throw e) \<or> (\<exists>p. authenticate f q ao = post f p))
   \<and> ((\<exists>e. play f q pl = throw e) \<or> (\<exists>p. play f q pl = post f p))
   \<and> ((\<exists>e. endRound f q ro = throw e) \<or> (\<exists>p. endRound f q ro = post f p))
   \<and> ((\<exists>e. endEvent f q eo = throw e) \<or> (\<exists>p. endEvent f q eo = post f p))
   \<and> ((\<exists>e. forceResult f q fo = throw e) \<or> (\<exists>p. forceResult f q fo = post f p))
   \<and> ((\<exists>e. getBalance f q bo = throw e) \<or> (\<exists>p. getBalance f q bo = post f p))
   \<and> ((\<exists>e. replay f q rp = throw e) \<or> (\<exists>g. replay f q rp = get f g))"
proof (intro conjI impI)
  assume a: "f \<lparr>http_method = POST, endpoint = ''https://'' @ post_rgsUrl po @ post_url po,
       variables = post_variables po\<rparr> = Inr r \<and> status r \<noteq> 200"
  from a have p: "post f po = (case get_message (case json r of Inl e \<Rightarrow> JObject [] | Inr v \<Rightarrow> v) of
        Inl e \<Rightarrow> Inl e
      | Inr message \<Rightarrow>
          if js_truthy message then
            (case js_to_string message of Inl e \<Rightarrow> Inl e | Inr msg \<Rightarrow> Inl (Error msg))
          else Inl (Error (''RGS API error: '' @ show_nat (status r) @ '' '' @ statusText r)),
      [\<lparr>http_method = POST, endpoint = ''https://'' @ post_rgsUrl po @ post_url po,
        variables = post_variables po\<rparr>])"
    by (intro post_non_200) simp_all
  show "\<exists>e. result (post f po) = Inl e"
    by (auto simp add: p result_def split: sum.splits)
  show "length (requests (post f po)) = 1"
    by (simp add: p requests_def)
  show "\<forall>e. json r = Inl e \<longrightarrow>
      result (post f po)
      = Inl (Error (''RGS API error: '' @ show_nat (status r) @ '' '' @ statusText r))"
    by (simp add: p result_def)
  show "\<forall>kvs m. json r = Inr (JObject kvs) \<and> map_of kvs ''message'' = Some (JString m)
      \<and> m \<noteq> [] \<longrightarrow> result (post f po) = Inl (Error m)"
    by (simp add: p result_def)
  show "\<forall>kvs v. json r = Inr (JObject kvs) \<and> map_of kvs ''message'' = Some v
      \<and> js_truthy v \<longrightarrow>
      result (post f po)
      = (case js_to_string v of Inl e \<Rightarrow> Inl e | Inr msg \<Rightarrow> Inl (Error msg))"
    by (simp add: p result_def split: sum.splits)
  show "\<forall>kvs. json r = Inr (JObject kvs)
      \<and> (map_of kvs ''message'' = None
          \<or> (\<exists>v. map_of kvs ''message'' = Some v \<and> \<not> js_truthy v)) \<longrightarrow>
      result (post f po)
      = Inl (Error (''RGS API error: '' @ show_nat (status r) @ '' '' @ statusText r))"
    by (auto simp add: p result_def)
next
  assume a: "f \<lparr>http_method = GET, endpoint = ''https://'' @ get_rgsUrl go @ get_url go,
         variables = None\<rparr> = Inr r \<and> status r \<noteq> 200"
  from a have p: "get f go = (case get_message (case json r of Inl e \<Rightarrow> JObject [] | Inr v \<Rightarrow> v) of
        Inl e \<Rightarrow> Inl e
      | Inr message \<Rightarrow>
          if js_truthy message then
            (case js_to_string message of Inl e \<Rightarrow> Inl e | Inr msg \<Rightarrow> Inl (Error msg))
          else Inl (Error (''RGS API error: '' @ show_nat (status r) @ '' '' @ statusText r)),
      [\<lparr>http_method = GET, endpoint = ''https://'' @ get_rgsUrl go @ get_url go,
        variables = None\<rparr>])"
    by (intro get_non_200) simp_all
  show "\<exists>e. result (get f go) = Inl e"
    by (auto simp add: p result_def split: sum.splits)
  show "length (requests (get f go)) = 1"
    by (simp add: p requests_def)
  show "\<forall>e. json r = Inl e \<longrightarrow>
      result (get f go)
      = Inl (Error (''RGS API error: '' @ show_nat (status r) @ '' '' @ statusText r))"
    by (simp add: p result_def)
  show "\<forall>kvs m. json r = Inr (JObject kvs) \<and> map_of kvs ''message'' = Some (JString m)
      \<and> m \<noteq> [] \<longrightarrow> result (get f go) = Inl (Error m)"
    by (simp add: p result_def)
  show "\<forall>kvs v. json r = Inr (JObject kvs) \<and> map_of kvs ''message'' = Some v
      \<and> js_truthy v \<longrightarrow>
      result (get f go)
      = (case js_to_string v of Inl e \<Rightarrow> Inl e | Inr msg \<Rightarrow> Inl (Error msg))"
    by (simp add: p result_def split: sum.splits)
  show "\<forall>kvs. json r = Inr (JObject kvs)
      \<and> (map_of kvs ''message'' = None
          \<or> (\<exists>v. map_of kvs ''message'' = Some v \<and> \<not> js_truthy v)) \<longrightarrow>
      result (get f go)
      = Inl (Error (''RGS API error: '' @ show_nat (status r) @ '' '' @ statusText r))"
    by (auto simp add: p result_def)
next
  show "(\<exists>e. authenticate f q ao = throw e) \<or> (\<exists>p. authenticate f q ao = post f p)"
    by (auto simp add: authenticate_resolved split: option.splits)
  show "(\<exists>e. play f q pl = throw e) \<or> (\<exists>p. play f q pl = post f p)"
    by (auto simp add: play_resolved split: option.splits)
  show "(\<exists>e. endRound f q ro = throw e) \<or> (\<exists>p. endRound f q ro = post f p)"
    by (auto simp add: endRound_resolved split: option.splits)
  show "(\<exists>e. endEvent f q eo = throw e) \<or> (\<exists>p. endEvent f q eo = post f p)"
    by (auto simp add: endEvent_resolved split: option.splits)
  show "(\<exists>e. forceResult f q fo = throw e) \<or> (\<exists>p. forceResult f q fo = post f p)"
    by (auto simp add: forceResult_resolved split: option.splits)
  show "(\<exists>e. getBalance f q bo = throw e) \<or> (\<exists>p. getBalance f q bo = post f p)"
    by (auto simp add: getBalance_resolved split: option.splits)
  show "(\<exists>e. replay f q rp = throw e) \<or> (\<exists>g. replay f q rp = get f g)"
    by (auto simp add: replay_resolved split: option.splits)
qed

theorem non_200_raises_witness:
  "result (post (mock_fetcher \<lparr>status = 401, statusText = ''Unauthorized'',
                   json = Inr (JObject [(''message'', JString ''bad session'')])\<rparr>)
      \<lparr>post_url = ''/wallet/balance'', post_rgsUrl = ''h'',
       post_variables = Some (JObject [(''sessionID'', JString ''s1'')])\<rparr>)
     = Inl (Error ''bad session'')
   \<and> result (post (mock_fetcher \<lparr>status = 502, statusText = ''Bad Gateway'',
                       json = Inl SyntaxError\<rparr>)
      \<lparr>post_url = ''/wallet/balance'', post_rgsUrl = ''h'',
       post_variables = Some (JObject [(''sessionID'', JString ''s1'')])\<rparr>)
     = Inl (Error ''RGS API error: 502 Bad Gateway'')
   \<and> result (post (mock_fetcher \<lparr>status = 403, statusText = ''Forbidden'',
                       json = Inr (JObject [(''code'', JString ''ERR_IS'')])\<rparr>)
      \<lparr>post_url = ''/wallet/balance'', post_rgsUrl = ''h'',
       post_variables = Some (JObject [(''sessionID'', JString ''s1'')])\<rparr>)
     = Inl (Error ''RGS API error: 403 Forbidden'')
   \<and> result (post (mock_fetcher \<lparr>status = 400, statusText = ''Bad Request'',
                       json = Inr (JObject [(''message'', JNum (Num 42))])\<rparr>)
      \<lparr>post_url = ''/wallet/balance'', post_rgsUrl = ''h'',
       post_variables = Some (JObject [(''sessionID'', JString ''s1'')])\<rparr>)
     = Inl (Error ''42'')
   \<and> result (post (mock_fetcher \<lparr>status = 400, statusText = ''Bad Request'',
                       json = Inr (JObject [(''message'', JObject [(''code'', JNum (Num 42))])])\<rparr>)
      \<lparr>post_url = ''/wallet/balance'', post_rgsUrl = ''h'',
       post_variables = Some (JObject [(''sessionID'', JString ''s1'')])\<rparr>)
     = Inl (Error ''[object Object]'')
   \<and> result (post (mock_fetcher \<lparr>status = 400, statusText = ''Bad Request'',
                       json = Inr (JObject [(''message'', JObject [(''toString'', JNum (Num 1))])])\<rparr>)
      \<lparr>post_url = ''/wallet/balance'', post_rgsUrl = ''h'',
       post_variables = Some (JObject [(''sessionID'', JString ''s1'')])\<rparr>)
     = Inl (TypeError ''Cannot convert object to primitive value'')
   \<and> result (get (mock_fetcher \<lparr>status = 404, statusText = ''Not Found'',
                      json = Inr (JObject [(''message'', JString ''no such event'')])\<rparr>)
      \<lparr>get_url = ''/bet/replay/g/1/base/7'', get_rgsUrl = ''h''\<rparr>)
     = Inl (Error ''no such event'')
   \<and> result (get (mock_fetcher \<lparr>status = 500, statusText = ''Internal Server Error'',
                      json = Inl SyntaxError\<rparr>)
      \<lparr>get_url = ''/bet/replay/g/1/base/7'', get_rgsUrl = ''h''\<rparr>)
     = Inl (Error ''RGS API error: 500 Internal Server Error'')
   \<and> result (get (mock_fetcher \<lparr>status = 503, statusText = ''Service Unavailable'',
                      json = Inr (JObject [(''message'', JNull)])\<rparr>)
      \<lparr>get_url = ''/bet/replay/g/1/base/7'', get_rgsUrl = ''h''\<rparr>)
     = Inl (Error ''RGS API error: 503 Service Unavailable'')"
proof -
  have n42: "number_to_string (Num 42) = ''42''"
    using number_to_string_nat [of 42] by (simp add: show_nat.simps digit_char_def)
  show ?thesis
    using
      non_200_raises [where
        f = "mock_fetcher \<lparr>status = 401, statusText = ''Unauthorized'',
               json = Inr (JObject [(''message'', JString ''bad session'')])\<rparr>"
        and r = "\<lparr>status = 401, statusText = ''Unauthorized'',
               json = Inr (JObject [(''message'', JString ''bad session'')])\<rparr>"
        and po = "\<lparr>post_url = ''/wallet/balance'', post_rgsUrl = ''h'',
               post_variables = Some (JObject [(''sessionID'', JString ''s1'')])\<rparr>"]
      non_200_raises [where
        f = "mock_fetcher \<lparr>status = 502, statusText = ''Bad Gateway'', json = Inl SyntaxError\<rparr>"
        and r = "\<lparr>status = 502, statusText = ''Bad Gateway'', json = Inl SyntaxError\<rparr>"
        and po = "\<lparr>post_url = ''/wallet/balance'', post_rgsUrl = ''h'',
               post_variables = Some (JObject [(''sessionID'', JString ''s1'')])\<rparr>"]
      non_200_raises [where
        f = "mock_fetcher \<lparr>status = 403, statusText = ''Forbidden'',
               json = Inr (JObject [(''code'', JString ''ERR_IS'')])\<rparr>"
        and r = "\<lparr>status = 403, statusText = ''Forbidden'',
               json = Inr (JObject [(''code'', JString ''ERR_IS'')])\<rparr>"
        and po = "\<lparr>post_url = ''/wallet/balance'', post_rgsUrl = ''h'',
               post_variables = Some (JObject [(''sessionID'', JString ''s1'')])\<rparr>"]
      non_200_raises [where
        f = "mock_fetcher \<lparr>status = 400, statusText = ''Bad Request'',
               json = Inr (JObject [(''message'', JNum (Num 42))])\<rparr>"
        and r = "\<lparr>status = 400, statusText = ''Bad Request'',
               json = Inr (JObject [(''message'', JNum (Num 42))])\<rparr>"
        and po = "\<lparr>post_url = ''/wallet/balance'', post_rgsUrl = ''h'',
               post_variables = Some (JObject [(''sessionID'', JString ''s1'')])\<rparr>"]
      non_200_raises [where
        f = "mock_fetcher \<lparr>status = 400, statusText = ''Bad Request'',
               json = Inr (JObject [(''message'', JObject [(''code'', JNum (Num 42))])])\<rparr>"
        and r = "\<lparr>status = 400, statusText = ''Bad Request'',
               json = Inr (JObject [(''message'', JObject [(''code'', JNum (Num 42))])])\<rparr>"
        and po = "\<lparr>post_url = ''/wallet/balance'', post_rgsUrl = ''h'',
               post_variables = Some (JObject [(''sessionID'', JString ''s1'')])\<rparr>"]
      non_200_raises [where
        f = "mock_fetcher \<lparr>status = 400, statusText = ''Bad Request'',
               json = Inr (JObject [(''message'', JObject [(''toString'', JNum (Num 1))])])\<rparr>"
        and r = "\<lparr>status = 400, statusText = ''Bad Request'',
               json = Inr (JObject [(''message'', JObject [(''toString'', JNum (Num 1))])])\<rparr>"
        and po = "\<lparr>post_url = ''/wallet/balance'', post_rgsUrl = ''h'',
               post_variables = Some (JObject [(''sessionID'', JString ''s1'')])\<rparr>"]
      non_200_raises [where
        f = "mock_fetcher \<lparr>status = 404, statusText = ''Not Found'',
               json = Inr (JObject [(''message'', JString ''no such event'')])\<rparr>"
        and r = "\<lparr>status = 404, statusText = ''Not Found'',
               json = Inr (JObject [(''message'', JString ''no such event'')])\<rparr>"
        and go = "\<lparr>get_url = ''/bet/replay/g/1/base/7'', get_rgsUrl = ''h''\<rparr>"]
      non_200_raises [where
        f = "mock_fetcher \<lparr>status = 500, statusText = ''Internal Server Error'',
               json = Inl SyntaxError\<rparr>"
        and r = "\<lparr>status = 500, statusText = ''Internal Server Error'', json = Inl SyntaxError\<rparr>"
        and go = "\<lparr>get_url = ''/bet/replay/g/1/base/7'', get_rgsUrl = ''h''\<rparr>"]
      non_200_raises [where
        f = "mock_fetcher \<lparr>status = 503, statusText = ''Service Unavailable'',
               json = Inr (JObject [(''message'', JNull)])\<rparr>"
        and r = "\<lparr>status = 503, statusText = ''Service Unavailable'',
               json = Inr (JObject [(''message'', JNull)])\<rparr>"
        and go = "\<lparr>get_url = ''/bet/replay/g/1/base/7'', get_rgsUrl = ''h''\<rparr>"]
    by (simp add: mock_fetcher_def show_nat.simps digit_char_def n42 del: number_to_string.simps)
qed

text \<open>
  C6. \<open>play\<close> with the explicit options session identifier \<open>s1\<close>, server host \<open>h\<close>,
  amount 1.00 and mode \<open>base\<close>. In a host with a window, whatever the page's query string
  and the transport, the call issues exactly one request, a POST to
  \<open>https://h/wallet/play\<close>, whose body has the amount field 1000000 and the session
  identifier field \<open>s1\<close>. In a host without a window (Node.js) the same call, which names
  every parameter it needs, raises a \<open>ReferenceError\<close> and issues no request.
\<close>

theorem play_end_to_end:
  "in_host NoWindow
       (\<lambda>search. play f search \<lparr>play_amount = Num 1, play_mode = ''base'', play_currency = None,
                                 play_sessionID = Some ''s1'', play_rgsUrl = Some ''h''\<rparr>)
     = (Inl (ReferenceError ''window is not defined''), [])
   \<and> requests (in_host NoWindow
       (\<lambda>search. play f search \<lparr>play_amount = Num 1, play_mode = ''base'', play_currency = None,
                                 play_sessionID = Some ''s1'', play_rgsUrl = Some ''h''\<rparr>))
     = []
   \<and> requests (in_host (Browser q)
       (\<lambda>search. play f search \<lparr>play_amount = Num 1, play_mode = ''base'', play_currency = None,
                                 play_sessionID = Some ''s1'', play_rgsUrl = Some ''h''\<rparr>))
     = [\<lparr>http_method = POST,
         endpoint = ''https://h/wallet/play'',
         variables =
           Some (JObject
             [(''mode'', JString ''base''),
              (''currency'', JString (spec_resolve_default None (usp_get q ''currency'') ''USD'')),
              (''sessionID'', JString ''s1''),
              (''amount'', JNum (Num 1000000))])\<rparr>]
   \<and> map http_method
         (requests (in_host (Browser q)
            (\<lambda>search. play f search \<lparr>play_amount = Num 1, play_mode = ''base'',
                                      play_currency = None, play_sessionID = Some ''s1'',
                                      play_rgsUrl = Some ''h''\<rparr>)))
       = [POST]
   \<and> map (request_field ''amount'')
         (requests (in_host (Browser q)
            (\<lambda>search. play f search \<lparr>play_amount = Num 1, play_mode = ''base'',
                                      play_currency = None, play_sessionID = Some ''s1'',
                                      play_rgsUrl = Some ''h''\<rparr>)))
       = [Some (JNum (Num 1000000))]
   \<and> map (request_field ''sessionID'')
         (requests (in_host (Browser q)
            (\<lambda>search. play f search \<lparr>play_amount = Num 1, play_mode = ''base'',
                                      play_currency = None, play_sessionID = Some ''s1'',
                                      play_rgsUrl = Some ''h''\<rparr>)))
       = [Some (JString ''s1'')]"
proof -
  have m: "js_mul (Num 1) API_AMOUNT_MULTIPLIER = Num 1000000"
    using round_double_int [of 1000000] by (simp add: API_AMOUNT_MULTIPLIER_def)
  show ?thesis
    by (simp add: in_host_def window_location_search_def throw_def requests_def play_resolved
        spec_resolve_def present_def
        post_requests [unfolded requests_def] request_field_def m)
qed

text \<open>
  C7. Every deprecated name denotes the same function as its canonical operation. For the
  seven aliases the client module defines this holds. The package's index also re-exports
  \<open>requestPlay\<close> (and \<open>bet\<close>) from the client module, which has no export of that name:
  there is no function \<open>requestPlay\<close> to compare with \<open>play\<close>.
\<close>

theorem deprecated_aliases:
  "package_export ''requestPlay'' = None
   \<and> package_export ''bet'' = None
   \<and> package_export ''play'' = Some (PlayFn play)
   \<and> package_export ''requestBet'' = package_export ''play''
   \<and> package_export ''requestAuthenticate'' = package_export ''authenticate''
   \<and> package_export ''requestBalance'' = package_export ''getBalance''
   \<and> package_export ''requestEndRound'' = package_export ''endRound''
   \<and> package_export ''requestEndEvent'' = package_export ''endEvent''
   \<and> package_export ''requestForceResult'' = package_export ''forceResult''
   \<and> package_export ''requestReplay'' = package_export ''replay''
   \<and> requestBet = play \<and> requestAuthenticate = authenticate \<and> requestBalance = getBalance
   \<and> requestEndRound = endRound \<and> requestEndEvent = endEvent
   \<and> requestForceResult = forceResult \<and> requestReplay = replay"
  by (simp add: package_export_def index_reexports_def client_exports_def requestBet_def
      requestAuthenticate_def requestBalance_def requestEndRound_def requestEndEvent_def
      requestForceResult_def requestReplay_def)

text \<open>
  C8, as stated: for every game, version, mode and event, \<open>replay\<close> issues a GET request
  whose URL path is \<open>/bet/replay/{game}/{version}/{mode}/{event}\<close>, with no query string.
  The arguments are inserted as they are, so a question mark in one of them starts a
  query string: with the version \<open>1?x=1\<close> the URL is
  \<open>https://h/bet/replay/g/1?x=1/base/7\<close>, whose query string is \<open>x=1/base/7\<close> and whose
  path ends at the version.
\<close>

theorem replay_query_string:
  "requests (replay (mock_fetcher \<lparr>status = 200, statusText = ''OK'', json = Inr (JObject [])\<rparr>)
       []
       \<lparr>replay_game = ''g'', replay_version = ''1?x=1'', replay_mode = ''base'',
        replay_event = ''7'', replay_rgsUrl = Some ''h''\<rparr>)
     = [\<lparr>http_method = GET, endpoint = ''https://h/bet/replay/g/1?x=1/base/7'',
         variables = None\<rparr>]
   \<and> url_query ''https://h/bet/replay/g/1?x=1/base/7'' = Some ''x=1/base/7''
   \<and> url_before_query ''https://h/bet/replay/g/1?x=1/base/7'' = ''https://h/bet/replay/g/1''
   \<and> url_before_query ''https://h/bet/replay/g/1?x=1/base/7''
       \<noteq> ''https://h/bet/replay/g/1?x=1/base/7''"
  by (simp add: replay_resolved get_requests spec_resolve_def present_def url_query_def
      url_before_query_def)

text \<open>
  C8, amended: when the server host resolves, \<open>replay\<close> issues one GET request whose URL
  is \<open>https://\<close>, the host, and \<open>/bet/replay/{game}/{version}/{mode}/{event}\<close> with the
  four arguments as they are, unencoded, in that order; nothing follows the event, and the
  request has no body. If neither the host nor an argument contains a question mark, the
  URL contains none: it has no query string.
\<close>

theorem replay_request:
  "(spec_resolve (replay_rgsUrl rp) (usp_get q ''rgs_url'') = Some host
      \<longrightarrow> requests (replay f q rp)
          = [\<lparr>http_method = GET,
              endpoint = ''https://'' @ host @ ''/bet/replay/'' @ replay_game rp @ ''/''
                         @ replay_version rp @ ''/'' @ replay_mode rp @ ''/'' @ replay_event rp,
              variables = None\<rparr>])
   \<and> (spec_resolve (replay_rgsUrl rp) (usp_get q ''rgs_url'') = Some host
        \<and> CHR ''?'' \<notin> set host \<and> CHR ''?'' \<notin> set (replay_game rp)
        \<and> CHR ''?'' \<notin> set (replay_version rp) \<and> CHR ''?'' \<notin> set (replay_mode rp)
        \<and> CHR ''?'' \<notin> set (replay_event rp)
      \<longrightarrow> (\<forall>r \<in> set (requests (replay f q rp)).
            CHR ''?'' \<notin> set (endpoint r) \<and> url_query (endpoint r) = None
            \<and> url_before_query (endpoint r) = endpoint r))"
proof -
  have none: "url_query u = None \<and> url_before_query u = u" if "CHR ''?'' \<notin> set u" for u
    using that by (induction u) (auto simp add: url_query_def url_before_query_def)
  show ?thesis
    by (auto simp add: replay_resolved get_requests none)
qed

theorem replay_request_witness:
  "requests (replay (mock_fetcher \<lparr>status = 200, statusText = ''OK'', json = Inr (JObject [])\<rparr>)
       [(''rgs_url'', ''rgs.example.com'')]
       \<lparr>replay_game = ''slots-adventure'', replay_version = ''1.0.0'', replay_mode = ''base'',
        replay_event = ''abc123'', replay_rgsUrl = None\<rparr>)
     = [\<lparr>http_method = GET,
         endpoint = ''https://rgs.example.com/bet/replay/slots-adventure/1.0.0/base/abc123'',
         variables = None\<rparr>]
   \<and> CHR ''?'' \<notin> set ''https://rgs.example.com/bet/replay/slots-adventure/1.0.0/base/abc123''
   \<and> url_query ''https://rgs.example.com/bet/replay/slots-adventure/1.0.0/base/abc123'' = None"
  using replay_request [where q = "[(''rgs_url'', ''rgs.example.com'')]"
      and host = "''rgs.example.com''"
      and f = "mock_fetcher \<lparr>status = 200, statusText = ''OK'', json = Inr (JObject [])\<rparr>"
      and rp = "\<lparr>replay_game = ''slots-adventure'', replay_version = ''1.0.0'',
                 replay_mode = ''base'', replay_event = ''abc123'', replay_rgsUrl = None\<rparr>"]
  by (simp add: spec_resolve_def present_def usp_get_def url_query_def)

text \<open>
  C9. When every parameter an operation uses is given explicitly as a non-empty value,
  two runs with any two URL contexts and the same transport have the same outcome: the
  same requests and the same result.
\<close>

theorem explicit_parameters_hide_context:
  "(present (auth_sessionID ao) \<and> present (auth_rgsUrl ao) \<and> present (auth_language ao)
      \<longrightarrow> authenticate f qa (Some ao) = authenticate f qb (Some ao))
   \<and> (present (play_sessionID po) \<and> present (play_rgsUrl po) \<and> present (play_currency po)
      \<longrightarrow> play f qa po = play f qb po)
   \<and> (present (endRound_sessionID ro) \<and> present (endRound_rgsUrl ro)
      \<longrightarrow> endRound f qa (Some ro) = endRound f qb (Some ro))
   \<and> (present (endEvent_sessionID eo) \<and> present (endEvent_rgsUrl eo)
      \<longrightarrow> endEvent f qa eo = endEvent f qb eo)
   \<and> (present (forceResult_rgsUrl fo)
      \<longrightarrow> forceResult f qa fo = forceResult f qb fo)
   \<and> (present (getBalance_sessionID bo) \<and> present (getBalance_rgsUrl bo)
      \<longrightarrow> getBalance f qa (Some bo) = getBalance f qb (Some bo))
   \<and> (present (replay_rgsUrl rp)
      \<longrightarrow> replay f qa rp = replay f qb rp)"
  by (auto simp add: authenticate_resolved play_resolved endRound_resolved endEvent_resolved
      forceResult_resolved getBalance_resolved replay_resolved
      spec_resolve_explicit spec_resolve_default_explicit cong: option.case_cong)

theorem explicit_parameters_hide_context_witness:
  "authenticate (mock_fetcher \<lparr>status = 200, statusText = ''OK'', json = Inr (JObject [])\<rparr>)
       [(''sessionID'', ''B''), (''rgs_url'', ''evil.example''), (''lang'', ''de'')]
       (Some \<lparr>auth_sessionID = Some ''A'', auth_rgsUrl = Some ''h'', auth_language = Some ''fr''\<rparr>)
     = authenticate (mock_fetcher \<lparr>status = 200, statusText = ''OK'', json = Inr (JObject [])\<rparr>)
       []
       (Some \<lparr>auth_sessionID = Some ''A'', auth_rgsUrl = Some ''h'', auth_language = Some ''fr''\<rparr>)
   \<and> play (mock_fetcher \<lparr>status = 200, statusText = ''OK'', json = Inr (JObject [])\<rparr>)
       [(''sessionID'', ''B''), (''rgs_url'', ''evil.example''), (''currency'', ''EUR'')]
       \<lparr>play_amount = Num 1, play_mode = ''base'', play_currency = Some ''GBP'',
        play_sessionID = Some ''A'', play_rgsUrl = Some ''h''\<rparr>
     = play (mock_fetcher \<lparr>status = 200, statusText = ''OK'', json = Inr (JObject [])\<rparr>)
       []
       \<lparr>play_amount = Num 1, play_mode = ''base'', play_currency = Some ''GBP'',
        play_sessionID = Some ''A'', play_rgsUrl = Some ''h''\<rparr>
   \<and> endRound (mock_fetcher \<lparr>status = 200, statusText = ''OK'', json = Inr (JObject [])\<rparr>)
       [(''sessionID'', ''B''), (''rgs_url'', ''evil.example'')]
       (Some \<lparr>endRound_sessionID = Some ''A'', endRound_rgsUrl = Some ''h''\<rparr>)
     = endRound (mock_fetcher \<lparr>status = 200, statusText = ''OK'', json = Inr (JObject [])\<rparr>)
       []
       (Some \<lparr>endRound_sessionID = Some ''A'', endRound_rgsUrl = Some ''h''\<rparr>)
   \<and> endEvent (mock_fetcher \<lparr>status = 200, statusText = ''OK'', json = Inr (JObject [])\<rparr>)
       [(''sessionID'', ''B''), (''rgs_url'', ''evil.example'')]
       \<lparr>endEvent_eventIndex = Num 1, endEvent_sessionID = Some ''A'',
        endEvent_rgsUrl = Some ''h''\<rparr>
     = endEvent (mock_fetcher \<lparr>status = 200, statusText = ''OK'', json = Inr (JObject [])\<rparr>)
       []
       \<lparr>endEvent_eventIndex = Num 1, endEvent_sessionID = Some ''A'',
        endEvent_rgsUrl = Some ''h''\<rparr>
   \<and> forceResult (mock_fetcher \<lparr>status = 200, statusText = ''OK'', json = Inr (JObject [])\<rparr>)
       [(''sessionID'', ''B''), (''rgs_url'', ''evil.example'')]
       \<lparr>forceResult_mode = ''base'', forceResult_search = JObject [],
        forceResult_rgsUrl = Some ''h''\<rparr>
     = forceResult (mock_fetcher \<lparr>status = 200, statusText = ''OK'', json = Inr (JObject [])\<rparr>)
       []
       \<lparr>forceResult_mode = ''base'', forceResult_search = JObject [],
        forceResult_rgsUrl = Some ''h''\<rparr>
   \<and> getBalance (mock_fetcher \<lparr>status = 200, statusText = ''OK'', json = Inr (JObject [])\<rparr>)
       [(''sessionID'', ''B''), (''rgs_url'', ''evil.example'')]
       (Some \<lparr>getBalance_sessionID = Some ''A'', getBalance_rgsUrl = Some ''h''\<rparr>)
     = getBalance (mock_fetcher \<lparr>status = 200, statusText = ''OK'', json = Inr (JObject [])\<rparr>)
       []
       (Some \<lparr>getBalance_sessionID = Some ''A'', getBalance_rgsUrl = Some ''h''\<rparr>)
   \<and> replay (mock_fetcher \<lparr>status = 200, statusText = ''OK'', json = Inr (JObject [])\<rparr>)
       [(''sessionID'', ''B''), (''rgs_url'', ''evil.example'')]
       \<lparr>replay_game = ''g'', replay_version = ''1'', replay_mode = ''base'',
        replay_event = ''7'', replay_rgsUrl = Some ''h''\<rparr>
     = replay (mock_fetcher \<lparr>status = 200, statusText = ''OK'', json = Inr (JObject [])\<rparr>)
       []
       \<lparr>replay_game = ''g'', replay_version = ''1'', replay_mode = ''base'',
        replay_event = ''7'', replay_rgsUrl = Some ''h''\<rparr>"
  using
    explicit_parameters_hide_context [where f = "mock_fetcher \<lparr>status = 200, statusText = ''OK'', json = Inr (JObject [])\<rparr>"
      and qa = "[(''sessionID'', ''B''), (''rgs_url'', ''evil.example''), (''lang'', ''de'')]"
      and qb = "[]"
      and ao = "\<lparr>auth_sessionID = Some ''A'', auth_rgsUrl = Some ''h'', auth_language = Some ''fr''\<rparr>"
      and po = "\<lparr>play_amount = Num 1, play_mode = ''base'', play_currency = Some ''GBP'',
          play_sessionID = Some ''A'', play_rgsUrl = Some ''h''\<rparr>"
      and ro = "\<lparr>endRound_sessionID = Some ''A'', endRound_rgsUrl = Some ''h''\<rparr>"
      and eo = "\<lparr>endEvent_eventIndex = Num 1, endEvent_sessionID = Some ''A'',
          endEvent_rgsUrl = Some ''h''\<rparr>"
      and fo = "\<lparr>forceResult_mode = ''base'', forceResult_search = JObject [],
          forceResult_rgsUrl = Some ''h''\<rparr>"
      and bo = "\<lparr>getBalance_sessionID = Some ''A'', getBalance_rgsUrl = Some ''h''\<rparr>"
      and rp = "\<lparr>replay_game = ''g'', replay_version = ''1'', replay_mode = ''base'',
          replay_event = ''7'', replay_rgsUrl = Some ''h''\<rparr>"]
    explicit_parameters_hide_context [where f = "mock_fetcher \<lparr>status = 200, statusText = ''OK'', json = Inr (JObject [])\<rparr>"
      and qa = "[(''sessionID'', ''B''), (''rgs_url'', ''evil.example''), (''currency'', ''EUR'')]"
      and qb = "[]"
      and ao = "\<lparr>auth_sessionID = Some ''A'', auth_rgsUrl = Some ''h'', auth_language = Some ''fr''\<rparr>"
      and po = "\<lparr>play_amount = Num 1, play_mode = ''base'', play_currency = Some ''GBP'',
          play_sessionID = Some ''A'', play_rgsUrl = Some ''h''\<rparr>"
      and ro = "\<lparr>endRound_sessionID = Some ''A'', endRound_rgsUrl = Some ''h''\<rparr>"
      and eo = "\<lparr>endEvent_eventIndex = Num 1, endEvent_sessionID = Some ''A'',
          endEvent_rgsUrl = Some ''h''\<rparr>"
      and fo = "\<lparr>forceResult_mode = ''base'', forceResult_search = JObject [],
          forceResult_rgsUrl = Some ''h''\<rparr>"
      and bo = "\<lparr>getBalance_sessionID = Some ''A'', getBalance_rgsUrl = Some ''h''\<rparr>"
      and rp = "\<lparr>replay_game = ''g'', replay_version = ''1'', replay_mode = ''base'',
          replay_event = ''7'', replay_rgsUrl = Some ''h''\<rparr>"]
    explicit_parameters_hide_context [where f = "mock_fetcher \<lparr>status = 200, statusText = ''OK'', json = Inr (JObject [])\<rparr>"
      and qa = "[(''sessionID'', ''B''), (''rgs_url'', ''evil.example'')]"
      and qb = "[]"
      and ao = "\<lparr>auth_sessionID = Some ''A'', auth_rgsUrl = Some ''h'', auth_language = Some ''fr''\<rparr>"
      and po = "\<lparr>play_amount = Num 1, play_mode = ''base'', play_currency = Some ''GBP'',
          play_sessionID = Some ''A'', play_rgsUrl = Some ''h''\<rparr>"
      and ro = "\<lparr>endRound_sessionID = Some ''A'', endRound_rgsUrl = Some ''h''\<rparr>"
      and eo = "\<lparr>endEvent_eventIndex = Num 1, endEvent_sessionID = Some ''A'',
          endEvent_rgsUrl = Some ''h''\<rparr>"
      and fo = "\<lparr>forceResult_mode = ''base'', forceResult_search = JObject [],
          forceResult_rgsUrl = Some ''h''\<rparr>"
      and bo = "\<lparr>getBalance_sessionID = Some ''A'', getBalance_rgsUrl = Some ''h''\<rparr>"
      and rp = "\<lparr>replay_game = ''g'', replay_version = ''1'', replay_mode = ''base'',
          replay_event = ''7'', replay_rgsUrl = Some ''h''\<rparr>"]
  by (simp add: present_def)

text \<open>
  C10. When the session identifier and the server host resolve, \<open>endEvent\<close> issues one
  POST request whose body's event field is a string, never a number: the string
  conversion of the event index (\<open>Number::toString\<close>, radix 10). For an integer event
  index below \<open>2^53\<close> in magnitude that string is its decimal numeral, with a minus sign
  for a negative one: the event index 1 is sent as the string \<open>1\<close>.
\<close>

theorem endEvent_event_field:
  "(spec_resolve (endEvent_sessionID eo) (usp_get q ''sessionID'') = Some sid
      \<and> spec_resolve (endEvent_rgsUrl eo) (usp_get q ''rgs_url'') = Some host
      \<longrightarrow> requests (endEvent f q eo)
          = [\<lparr>http_method = POST,
              endpoint = ''https://'' @ host @ ''/bet/event'',
              variables =
                Some (JObject
                  [(''sessionID'', JString sid),
                   (''event'', JString (number_to_string (endEvent_eventIndex eo)))])\<rparr>])
   \<and> (n < 2 ^ 53 \<longrightarrow> number_to_string (Num (of_nat n)) = show_nat n)
   \<and> (0 < n \<and> n < 2 ^ 53 \<longrightarrow> number_to_string (Num (- of_nat n)) = CHR ''-'' # show_nat n)
   \<and> number_to_string (Num 1) = ''1''
   \<and> number_to_string (Num (3 / 2)) = ''1.5''
   \<and> number_to_string NaN = ''NaN''"
proof -
  have one: "number_to_string (Num 1) = ''1''"
    using number_to_string_nat [of 1] by (simp add: show_nat_small digit_char_def)
  show ?thesis
    using one three_halves number_to_string_nat [of n] number_to_string_neg_nat [of n]
    by (simp add: endEvent_resolved post_requests del: number_to_string.simps) simp
qed

theorem endEvent_event_field_witness:
  "map (request_field ''event'')
     (requests (endEvent (mock_fetcher \<lparr>status = 200, statusText = ''OK'', json = Inr (JObject [])\<rparr>)
        [(''sessionID'', ''abc''), (''rgs_url'', ''h'')]
        \<lparr>endEvent_eventIndex = Num 42, endEvent_sessionID = None, endEvent_rgsUrl = None\<rparr>))
     = [Some (JString ''42'')]
   \<and> number_to_string (Num (- 7)) = ''-7''"
  using endEvent_event_field [where q = "[(''sessionID'', ''abc''), (''rgs_url'', ''h'')]"
      and sid = "''abc''" and host = "''h''"
      and f = "mock_fetcher \<lparr>status = 200, statusText = ''OK'', json = Inr (JObject [])\<rparr>"
      and eo = "\<lparr>endEvent_eventIndex = Num 42, endEvent_sessionID = None, endEvent_rgsUrl = None\<rparr>"
      and n = 42]
    endEvent_event_field [where n = 7]
  by (simp add: spec_resolve_def present_def usp_get_def request_field_def show_nat.simps
      digit_char_def del: number_to_string.simps)

section \<open>A further property\<close>

text \<open>
  A response with status 200 is returned as it is: the result of \<open>post\<close> and of \<open>get\<close> is
  the parsed body (or the rejection of \<open>response.json()\<close>), with no change to its fields,
  after the one request.
\<close>

theorem ok_response_returned:
  "(f \<lparr>http_method = POST, endpoint = ''https://'' @ post_rgsUrl po @ post_url po,
       variables = post_variables po\<rparr> = Inr r \<and> status r = 200
      \<longrightarrow> post f po
          = (json r,
             [\<lparr>http_method = POST, endpoint = ''https://'' @ post_rgsUrl po @ post_url po,
               variables = post_variables po\<rparr>]))
   \<and> (f \<lparr>http_method = GET, endpoint = ''https://'' @ get_rgsUrl go @ get_url go,
         variables = None\<rparr> = Inr r \<and> status r = 200
      \<longrightarrow> get f go
          = (json r,
             [\<lparr>http_method = GET, endpoint = ''https://'' @ get_rgsUrl go @ get_url go,
               variables = None\<rparr>]))"
  by (simp add: post_def get_def Let_def)

theorem ok_response_returned_witness:
  "result (getBalance
      (mock_fetcher \<lparr>status = 200, statusText = ''OK'',
         json = Inr (JObject [(''balance'',
                   JObject [(''amount'', JNum (Num 5000000)), (''currency'', JString ''USD'')])])\<rparr>)
      [(''sessionID'', ''abc''), (''rgs_url'', ''h'')] None)
     = Inr (JObject [(''balance'',
              JObject [(''amount'', JNum (Num 5000000)), (''currency'', JString ''USD'')])])"
  using ok_response_returned [where
      f = "mock_fetcher \<lparr>status = 200, statusText = ''OK'',
         json = Inr (JObject [(''balance'',
                   JObject [(''amount'', JNum (Num 5000000)), (''currency'', JString ''USD'')])])\<rparr>"
      and r = "\<lparr>status = 200, statusText = ''OK'',
         json = Inr (JObject [(''balance'',
                   JObject [(''amount'', JNum (Num 5000000)), (''currency'', JString ''USD'')])])\<rparr>"
      and po = "\<lparr>post_url = ''/wallet/balance'', post_rgsUrl = ''h'',
         post_variables = Some (JObject [(''sessionID'', JString ''abc'')])\<rparr>"]
  by (simp add: getBalance_resolved spec_resolve_def present_def usp_get_def mock_fetcher_def
      result_def)

end
